theory Spec2Isabelle
  imports Complex_Main "HOL-Library.Multiset"
begin

section \<open>The dashboard page: data model\<close>

text \<open>
  The development embeds the dashboard page component (\<^verbatim>\<open>frontend/app/dashboard/page.tsx\<close>)
  and the fetch wrapper \<^verbatim>\<open>fetchSheetsData\<close> (\<^verbatim>\<open>frontend/lib/api.ts\<close>).

  JavaScript numbers that reach the page come from JSON, so they are finite; a finite
  double is modelled by the decimal it prints as (the shortest decimal that reads back as
  the same double: \<open>1.005\<close> for the double nearest to it), a rational. The map is
  one-to-one and keeps the order and the sign, so comparison with zero, \<^verbatim>\<open>Math.abs\<close>,
  \<^verbatim>\<open>===\<close> and the sign of \<^verbatim>\<open>a - b\<close> are the same on the decimals as on the doubles.
\<close>

type_synonym number = rat

text \<open>A property value of a record (\<^verbatim>\<open>[key: string]: any\<close>), as JSON delivers it.\<close>

datatype jsval = JNull | JBool bool | JNum number | JStr string

text \<open>
  The field \<^verbatim>\<open>ano?: number\<close>: the key may be missing (\<^verbatim>\<open>undefined\<close>), JSON may carry
  \<^verbatim>\<open>null\<close>, or it is a number.
\<close>

datatype ano_value = AnoAbsent | AnoNull | AnoNum number

text \<open>
  \<^verbatim>\<open>interface SheetDataItem\<close>. \<open>props\<close> holds the own properties other than \<^verbatim>\<open>ano\<close> and
  \<^verbatim>\<open>percentuais\<close>, in the order \<^verbatim>\<open>Object.keys\<close> enumerates them.
\<close>

record SheetDataItem =
  ano :: ano_value
  props :: "(string \<times> jsval) list"
  percentuais :: "(string \<times> number) list option"

text \<open>\<^verbatim>\<open>Boolean(item.ano)\<close>: \<^verbatim>\<open>undefined\<close>, \<^verbatim>\<open>null\<close> and \<^verbatim>\<open>0\<close> are falsy.\<close>

fun truthy_ano :: "ano_value \<Rightarrow> bool" where
  "truthy_ano AnoAbsent = False"
| "truthy_ano AnoNull = False"
| "truthy_ano (AnoNum n) = (n \<noteq> 0)"

text \<open>
  \<^verbatim>\<open>Object.keys(item)\<close>. Where the two reserved keys stand among the others does not
  matter to the page, which filters them out at once.
\<close>

definition objectKeys :: "SheetDataItem \<Rightarrow> string list" where
  "objectKeys item =
     (case ano item of AnoAbsent \<Rightarrow> [] | _ \<Rightarrow> [''ano'']) @
     map fst (props item) @
     (case percentuais item of None \<Rightarrow> [] | Some _ \<Rightarrow> [''percentuais''])"

section \<open>Selection state\<close>

text \<open>
  Coordinates are the \<^verbatim>\<open>data-row\<close> and \<^verbatim>\<open>data-col\<close> attributes, as \<^verbatim>\<open>getCellCoords\<close> reads
  them: \<open>(row, col)\<close>.
\<close>

type_synonym coords = "int \<times> int"

datatype clicked_type = Cell | Col | Row

record clicked =
  crow :: int
  ccol :: int
  ctype :: clicked_type

text \<open>
  The table as it is rendered (\<^verbatim>\<open>tableRef.current\<close>): the \<^verbatim>\<open>td.planilha-valor\<close> cells with
  their coordinates, the \<^verbatim>\<open>thead th[data-col]\<close> year headers and the
  \<^verbatim>\<open>td.indicador-col[data-row]\<close> indicator headers.
\<close>

record table =
  valueCells :: "coords list"
  colHeaders :: "int list"
  rowHeaders :: "int list"

text \<open>
  The selection lives in class lists of the table's elements and in two refs. The three
  sets hold the elements that carry \<^verbatim>\<open>cell-selecionada\<close>, \<^verbatim>\<open>cabecalho-selecionado\<close> and
  \<^verbatim>\<open>indicador-selecionado\<close>, named by their coordinates in the table as currently rendered.
\<close>

record selection =
  cellSelecionada :: "coords set"
  cabecalhoSelecionado :: "int set"
  indicadorSelecionado :: "int set"
  lastClickedCoords :: "clicked option"
  startCellCoords :: "coords option"
  isMouseDown :: bool

record mouse_event =
  ctrlKey :: bool
  metaKey :: bool
  shiftKey :: bool

datatype js_error = TypeError

text \<open>\<^verbatim>\<open>classList.toggle(c)\<close> on one element.\<close>

definition toggle1 :: "'a \<Rightarrow> 'a set \<Rightarrow> 'a set" where
  "toggle1 x S = (if x \<in> S then S - {x} else insert x S)"

text \<open>\<^verbatim>\<open>forEach(el => el.classList.toggle(c))\<close> over a node list.\<close>

definition toggleAll :: "'a list \<Rightarrow> 'a set \<Rightarrow> 'a set" where
  "toggleAll xs S = (S - set xs) \<union> (set xs - S)"

definition clearSelection :: "selection \<Rightarrow> selection" where
  "clearSelection s =
     s\<lparr>cellSelecionada := {}, cabecalhoSelecionado := {}, indicadorSelecionado := {},
       lastClickedCoords := None\<rparr>"

definition inRange :: "coords \<Rightarrow> coords \<Rightarrow> coords \<Rightarrow> bool" where
  "inRange start end c =
     (let minRow = min (fst start) (fst end); maxRow = max (fst start) (fst end);
          minCol = min (snd start) (snd end); maxCol = max (snd start) (snd end)
      in fst c \<ge> minRow \<and> fst c \<le> maxRow \<and> snd c \<ge> minCol \<and> snd c \<le> maxCol)"

text \<open>
  \<^verbatim>\<open>selectCellsInRange\<close>: every \<^verbatim>\<open>.planilha-valor\<close> cell has the class set or removed by
  \<^verbatim>\<open>classList.toggle('cell-selecionada', inRange)\<close>.
\<close>

definition selectCellsInRange :: "table \<Rightarrow> coords \<Rightarrow> coords \<Rightarrow> selection \<Rightarrow> selection" where
  "selectCellsInRange t start end s =
     s\<lparr>cellSelecionada :=
         (cellSelecionada s - set (valueCells t)) \<union>
         set (filter (inRange start end) (valueCells t))\<rparr>"

text \<open>
  \<^verbatim>\<open>handleCellMouseDown\<close>, with the table the cell belongs to and the cell's coordinates.
  In the shift branch \<^verbatim>\<open>clearSelection()\<close> runs before \<^verbatim>\<open>lastClickedCoords.current\<close> is
  handed to \<^verbatim>\<open>selectCellsInRange\<close>, whose first statement reads \<^verbatim>\<open>start.row\<close>: on
  \<^verbatim>\<open>null\<close> that is a \<^verbatim>\<open>TypeError\<close>, and the statements after the call are not reached.
  The result pairs the exception, if any, with the state the handler leaves behind.
\<close>

definition handleCellMouseDown ::
  "table \<Rightarrow> mouse_event \<Rightarrow> coords \<Rightarrow> selection \<Rightarrow> js_error option \<times> selection" where
  "handleCellMouseDown t e currentCellCoords s0 =
     (let s = s0\<lparr>isMouseDown := True\<rparr> in
      if ctrlKey e \<or> metaKey e then
        (None,
         s\<lparr>cellSelecionada := toggle1 currentCellCoords (cellSelecionada s),
           lastClickedCoords :=
             Some \<lparr>crow = fst currentCellCoords, ccol = snd currentCellCoords, ctype = Cell\<rparr>,
           startCellCoords := Some currentCellCoords\<rparr>)
      else if shiftKey e \<and>
              (case lastClickedCoords s of None \<Rightarrow> False | Some a \<Rightarrow> ctype a = Cell) then
        (let s1 = clearSelection s in
         case lastClickedCoords s1 of
           None \<Rightarrow> (Some TypeError, s1)
         | Some a \<Rightarrow>
             (None,
              (selectCellsInRange t (crow a, ccol a) currentCellCoords s1)
                \<lparr>startCellCoords := Some currentCellCoords\<rparr>))
      else
        (let s1 = clearSelection s in
         (None,
          s1\<lparr>cellSelecionada := insert currentCellCoords (cellSelecionada s1),
             lastClickedCoords :=
               Some \<lparr>crow = fst currentCellCoords, ccol = snd currentCellCoords, ctype = Cell\<rparr>,
             startCellCoords := Some currentCellCoords\<rparr>)))"

text \<open>\<^verbatim>\<open>handleCellMouseOver\<close>: dragging with the button held.\<close>

definition handleCellMouseOver :: "table \<Rightarrow> coords \<Rightarrow> selection \<Rightarrow> selection" where
  "handleCellMouseOver t overCoords s =
     (case startCellCoords s of
        None \<Rightarrow> s
      | Some start \<Rightarrow> if isMouseDown s then selectCellsInRange t start overCoords s else s)"

text \<open>\<^verbatim>\<open>td[data-col="i"].planilha-valor\<close> and the cells of the \<open>i\<close>-th body row.\<close>

definition cellsInCol :: "table \<Rightarrow> int \<Rightarrow> coords list" where
  "cellsInCol t i = filter (\<lambda>c. snd c = i) (valueCells t)"

definition cellsInRow :: "table \<Rightarrow> int \<Rightarrow> coords list" where
  "cellsInRow t i = filter (\<lambda>c. fst c = i) (valueCells t)"

text \<open>One round of the loop of the shift branch of \<^verbatim>\<open>handleColHeaderClick\<close>.\<close>

definition addCol :: "table \<Rightarrow> int \<Rightarrow> selection \<Rightarrow> selection" where
  "addCol t i s =
     s\<lparr>cabecalhoSelecionado :=
         (if i \<in> set (colHeaders t) then insert i (cabecalhoSelecionado s)
          else cabecalhoSelecionado s),
       cellSelecionada := cellSelecionada s \<union> set (cellsInCol t i)\<rparr>"

definition handleColHeaderClick ::
  "table \<Rightarrow> mouse_event \<Rightarrow> int \<Rightarrow> selection \<Rightarrow> selection" where
  "handleColHeaderClick t e colIndex s0 =
     (let allCellsInCol = cellsInCol t colIndex;
          s = (if \<not> ctrlKey e \<and> \<not> shiftKey e then clearSelection s0 else s0) in
      if ctrlKey e \<or> metaKey e then
        s\<lparr>cabecalhoSelecionado := toggle1 colIndex (cabecalhoSelecionado s),
          cellSelecionada := toggleAll allCellsInCol (cellSelecionada s),
          lastClickedCoords := Some \<lparr>crow = - 1, ccol = colIndex, ctype = Col\<rparr>\<rparr>
      else if shiftKey e \<and>
              (case lastClickedCoords s of None \<Rightarrow> False | Some a \<Rightarrow> ctype a = Col) then
        (case lastClickedCoords s of
           None \<Rightarrow> s
         | Some a \<Rightarrow>
             (let prevColIdx = ccol a;
                  minCol = min prevColIdx colIndex;
                  maxCol = max prevColIdx colIndex
              in fold (addCol t) [minCol..maxCol] (clearSelection s)))
      else
        (let s1 = clearSelection s in
         s1\<lparr>cabecalhoSelecionado := insert colIndex (cabecalhoSelecionado s1),
            cellSelecionada := cellSelecionada s1 \<union> set allCellsInCol,
            lastClickedCoords := Some \<lparr>crow = - 1, ccol = colIndex, ctype = Col\<rparr>\<rparr>))"

text \<open>One round of the loop of the shift branch of \<^verbatim>\<open>handleRowHeaderClick\<close>.\<close>

definition addRow :: "table \<Rightarrow> int \<Rightarrow> selection \<Rightarrow> selection" where
  "addRow t i s =
     s\<lparr>indicadorSelecionado :=
         (if i \<in> set (rowHeaders t) then insert i (indicadorSelecionado s)
          else indicadorSelecionado s),
       cellSelecionada := cellSelecionada s \<union> set (cellsInRow t i)\<rparr>"

definition handleRowHeaderClick ::
  "table \<Rightarrow> mouse_event \<Rightarrow> int \<Rightarrow> selection \<Rightarrow> selection" where
  "handleRowHeaderClick t e rowIndex s0 =
     (let allCellsInRow = cellsInRow t rowIndex;
          s = (if \<not> ctrlKey e \<and> \<not> shiftKey e then clearSelection s0 else s0) in
      if ctrlKey e \<or> metaKey e then
        s\<lparr>indicadorSelecionado := toggle1 rowIndex (indicadorSelecionado s),
          cellSelecionada := toggleAll allCellsInRow (cellSelecionada s),
          lastClickedCoords := Some \<lparr>crow = rowIndex, ccol = - 1, ctype = Row\<rparr>\<rparr>
      else if shiftKey e \<and>
              (case lastClickedCoords s of None \<Rightarrow> False | Some a \<Rightarrow> ctype a = Row) then
        (case lastClickedCoords s of
           None \<Rightarrow> s
         | Some a \<Rightarrow>
             (let prevRowIdx = crow a;
                  minRow = min prevRowIdx rowIndex;
                  maxRow = max prevRowIdx rowIndex
              in fold (addRow t) [minRow..maxRow] (clearSelection s)))
      else
        (let s1 = clearSelection s in
         s1\<lparr>indicadorSelecionado := insert rowIndex (indicadorSelecionado s1),
            cellSelecionada := cellSelecionada s1 \<union> set allCellsInRow,
            lastClickedCoords := Some \<lparr>crow = rowIndex, ccol = - 1, ctype = Row\<rparr>\<rparr>))"

text \<open>
  The document listeners: \<^verbatim>\<open>handleClickOutside\<close> (its part on the table) with
  \<^verbatim>\<open>tableRef.current\<close> and whether the table contains the event target, and
  \<^verbatim>\<open>handleMouseUp\<close>.
\<close>

definition handleClickOutside :: "table option \<Rightarrow> bool \<Rightarrow> selection \<Rightarrow> selection" where
  "handleClickOutside tableRef targetInTable s =
     (case tableRef of
        None \<Rightarrow> s
      | Some t \<Rightarrow> if \<not> targetInTable then clearSelection s else s)"

definition handleMouseUp :: "selection \<Rightarrow> selection" where
  "handleMouseUp s = s\<lparr>isMouseDown := False\<rparr>"

section \<open>Fetching\<close>

text \<open>The body of an HTTP response, as \<^verbatim>\<open>response.data\<close> holds it after JSON parsing.\<close>

datatype json =
  JsonNull
| JsonBool bool
| JsonNumber number
| JsonString string
| JsonArray "json list"
| JsonObject "(string \<times> json) list"

text \<open>
  A rejected request, as the \<^verbatim>\<open>catch\<close> blocks read it: \<^verbatim>\<open>err.response.status\<close> when there
  is a response, and \<^verbatim>\<open>err.message\<close>.
\<close>

record fetch_error =
  responseStatus :: "nat option"
  message :: string

fun truthy_json :: "json \<Rightarrow> bool" where
  "truthy_json JsonNull = False"
| "truthy_json (JsonBool b) = b"
| "truthy_json (JsonNumber n) = (n \<noteq> 0)"
| "truthy_json (JsonString s) = (s \<noteq> [])"
| "truthy_json (JsonArray xs) = True"
| "truthy_json (JsonObject kvs) = True"

text \<open>\<^verbatim>\<open>typeof v === 'object'\<close>.\<close>

fun typeof_object :: "json \<Rightarrow> bool" where
  "typeof_object JsonNull = True"
| "typeof_object (JsonArray xs) = True"
| "typeof_object (JsonObject kvs) = True"
| "typeof_object v = False"

text \<open>
  \<^verbatim>\<open>'message' in v\<close>, used on objects only (the conjunction before it has excluded the
  primitives): an array parsed from JSON has its indices and \<^verbatim>\<open>length\<close>, no other key.
\<close>

fun message_in :: "json \<Rightarrow> bool" where
  "message_in (JsonObject kvs) = (''message'' \<in> set (map fst kvs))"
| "message_in v = False"

text \<open>
  \<^verbatim>\<open>fetchSheetsData\<close>, from the outcome of \<^verbatim>\<open>api.get\<close>: a rejection passes through, a body
  is returned as it is unless it is an object with a \<^verbatim>\<open>message\<close> key.
\<close>

definition fetchSheetsData :: "fetch_error + json \<Rightarrow> fetch_error + json" where
  "fetchSheetsData outcome =
     (case outcome of
        Inl err \<Rightarrow> Inl err
      | Inr responseData \<Rightarrow>
          if truthy_json responseData \<and> typeof_object responseData \<and> message_in responseData
          then Inr (JsonArray [])
          else Inr responseData)"

section \<open>Page state\<close>

text \<open>
  The \<^verbatim>\<open>useState\<close> cells of \<^verbatim>\<open>DashboardPage\<close> that the data flow uses, the selection, and
  what the page has asked of the outside world: whether \<^verbatim>\<open>router.replace('/login')\<close> was
  called, whether the tab list is still awaited, and the tab names of the
  \<^verbatim>\<open>fetchSheetsData\<close> calls still awaited.
\<close>

record dashboard =
  initialLoading :: bool
  currentTabLoading :: bool
  data :: "SheetDataItem list option"
  error :: string
  sheetTabs :: "string list"
  selectedTab :: string
  availableYears :: "number list"
  selectedYears :: "number list"
  replacedWithLogin :: bool
  tabsAwaited :: bool
  dataAwaited :: "string list"
  sel :: selection

text \<open>
  \<^verbatim>\<open>sheetsData.map(item => item.ano!).filter(Boolean).sort((a, b) => a - b)\<close>: what passes
  the filter is a non-zero number.
\<close>

fun numberOf :: "ano_value \<Rightarrow> number list" where
  "numberOf (AnoNum n) = [n]"
| "numberOf v = []"

definition loadedYears :: "SheetDataItem list \<Rightarrow> number list" where
  "loadedYears sheetsData = sort (concat (map numberOf (filter truthy_ano (map ano sheetsData))))"

text \<open>
  The messages are written without their diacritics (\<^verbatim>\<open>Sessao\<close>, \<^verbatim>\<open>nao\<close>, \<^verbatim>\<open>Faca\<close>).
\<close>

definition unauthorizedMessage :: string where
  "unauthorizedMessage = ''Sessao expirada ou nao autorizada. Faca login novamente.''"

definition messageOr :: "fetch_error \<Rightarrow> string" where
  "messageOr err = (if message err = [] then ''Unknown error.'' else message err)"

text \<open>
  \<^verbatim>\<open>loadSheetsData\<close> up to its \<^verbatim>\<open>await\<close>, and from the \<^verbatim>\<open>await\<close> on. The second
  part reads neither \<^verbatim>\<open>tabName\<close> nor \<^verbatim>\<open>selectedTab\<close>.
\<close>

definition loadSheetsData_call :: "string \<Rightarrow> dashboard \<Rightarrow> dashboard" where
  "loadSheetsData_call tabName s =
     (if tabName = [] then s
      else s\<lparr>currentTabLoading := True, error := [], dataAwaited := dataAwaited s @ [tabName]\<rparr>)"

definition loadSheetsData_settle ::
  "fetch_error + SheetDataItem list \<Rightarrow> dashboard \<Rightarrow> dashboard" where
  "loadSheetsData_settle outcome s =
     (case outcome of
        Inr sheetsData \<Rightarrow>
          (if length sheetsData > 0 then
             (let years = loadedYears sheetsData in
              s\<lparr>data := Some sheetsData, availableYears := years, selectedYears := years,
                currentTabLoading := False\<rparr>)
           else
             s\<lparr>data := Some sheetsData, availableYears := [], selectedYears := [],
               currentTabLoading := False\<rparr>)
      | Inl err \<Rightarrow>
          (if responseStatus err = Some 401 then
             s\<lparr>error := unauthorizedMessage, replacedWithLogin := True,
               currentTabLoading := False\<rparr>
           else
             s\<lparr>error := ''Erro ao carregar dados da aba: '' @ messageOr err,
               currentTabLoading := False\<rparr>))"

text \<open>The response to the request for \<open>tabName\<close> arrives.\<close>

definition dataResponse ::
  "string \<Rightarrow> fetch_error + SheetDataItem list \<Rightarrow> dashboard \<Rightarrow> dashboard" where
  "dataResponse tabName outcome s =
     loadSheetsData_settle outcome (s\<lparr>dataAwaited := remove1 tabName (dataAwaited s)\<rparr>)"

text \<open>The effect on \<^verbatim>\<open>[selectedTab, initialLoading, loadSheetsData]\<close>.\<close>

definition tabEffect :: "dashboard \<Rightarrow> dashboard" where
  "tabEffect s =
     (if selectedTab s \<noteq> [] \<and> \<not> initialLoading s then loadSheetsData_call (selectedTab s) s
      else s)"

text \<open>
  \<^verbatim>\<open>handleTabChange\<close>, followed by the effect when the state changed (setting a state to
  the value it has schedules nothing).
\<close>

definition handleTabChange :: "string \<Rightarrow> dashboard \<Rightarrow> dashboard" where
  "handleTabChange targetValue s =
     (if targetValue = selectedTab s then s else tabEffect (s\<lparr>selectedTab := targetValue\<rparr>))"

text \<open>\<^verbatim>\<open>initializeDashboard\<close> from its \<^verbatim>\<open>await\<close> on.\<close>

definition initializeDashboard_settle ::
  "fetch_error + string list \<Rightarrow> dashboard \<Rightarrow> dashboard" where
  "initializeDashboard_settle outcome s =
     (case outcome of
        Inr tabs \<Rightarrow>
          (case tabs of
             initialTab # rest \<Rightarrow>
               s\<lparr>sheetTabs := tabs, selectedTab := initialTab, initialLoading := False\<rparr>
           | [] \<Rightarrow>
               s\<lparr>sheetTabs := tabs, data := Some [], availableYears := [],
                 selectedYears := [], initialLoading := False\<rparr>)
      | Inl err \<Rightarrow>
          (if responseStatus err = Some 401 then
             s\<lparr>error := unauthorizedMessage, replacedWithLogin := True, initialLoading := False\<rparr>
           else
             s\<lparr>error := ''Erro ao inicializar o dashboard: '' @ messageOr err,
               initialLoading := False\<rparr>))"

text \<open>The response to \<^verbatim>\<open>fetchSheetTabs\<close> arrives; \<^verbatim>\<open>initialLoading\<close> changes, so the effect runs.\<close>

definition tabsResponse :: "fetch_error + string list \<Rightarrow> dashboard \<Rightarrow> dashboard" where
  "tabsResponse outcome s = tabEffect (initializeDashboard_settle outcome (s\<lparr>tabsAwaited := False\<rparr>))"

text \<open>
  \<^verbatim>\<open>handleYearToggle\<close> and \<^verbatim>\<open>handleToggleAllYears\<close> (whose \<^verbatim>\<open>sort\<close> is in place).
  Like the other handlers of the page state they have no statement on the selection and
  leave \<open>sel\<close> as it is; the render that follows them, in which a cell that keeps its
  key keeps its classes under a new \<^verbatim>\<open>data-col\<close> and a cell that is unmounted loses them,
  is not part of them.
\<close>

definition toggleYear :: "number \<Rightarrow> number list \<Rightarrow> number list" where
  "toggleYear year prev =
     (if year \<in> set prev then filter (\<lambda>y. y \<noteq> year) prev else sort (prev @ [year]))"

definition handleYearToggle :: "number \<Rightarrow> dashboard \<Rightarrow> dashboard" where
  "handleYearToggle year s = s\<lparr>selectedYears := toggleYear year (selectedYears s)\<rparr>"

definition handleToggleAllYears :: "bool \<Rightarrow> dashboard \<Rightarrow> dashboard" where
  "handleToggleAllYears checkAll s =
     (if checkAll then
        s\<lparr>availableYears := sort (availableYears s), selectedYears := sort (availableYears s)\<rparr>
      else s\<lparr>selectedYears := []\<rparr>)"

section \<open>Shaping the table\<close>

text \<open>\<^verbatim>\<open>selectedYears.includes(item.ano)\<close>, on a list of numbers.\<close>

fun includes_ano :: "number list \<Rightarrow> ano_value \<Rightarrow> bool" where
  "includes_ano years (AnoNum n) = (n \<in> set years)"
| "includes_ano years v = False"

definition filteredData ::
  "SheetDataItem list option \<Rightarrow> number list \<Rightarrow> SheetDataItem list option" where
  "filteredData dat selYears =
     (case dat of
        None \<Rightarrow> None
      | Some items \<Rightarrow>
          if length selYears = 0 then Some []
          else Some (filter (\<lambda>item. truthy_ano (ano item) \<and> includes_ano selYears (ano item)) items))"

definition tableHeaders :: "SheetDataItem list option \<Rightarrow> string list" where
  "tableHeaders filtered =
     (case filtered of
        None \<Rightarrow> []
      | Some [] \<Rightarrow> []
      | Some (first # rest) \<Rightarrow>
          filter (\<lambda>key. key \<noteq> ''ano'' \<and> key \<noteq> ''percentuais'') (objectKeys first))"

text \<open>The headers the page shows in a state.\<close>

definition shownHeaders :: "dashboard \<Rightarrow> string list" where
  "shownHeaders s = tableHeaders (filteredData (data s) (selectedYears s))"

section \<open>Rendering a cell\<close>

text \<open>
  \<^verbatim>\<open>Number.prototype.toLocaleString('pt-BR', {minimumFractionDigits: 2,
  maximumFractionDigits: 2})\<close> belongs to the platform. Its model here, for a value that is
  not negative (the page passes \<^verbatim>\<open>Math.abs(value)\<close>): the decimal the number prints as is
  rounded to hundredths, a tie going up (so \<open>1.005\<close> gives \<^verbatim>\<open>1,01\<close> and \<open>2.675\<close> gives
  \<^verbatim>\<open>2,68\<close>); the integer digits are grouped in threes by a full stop; a comma and the two
  fraction digits follow.
\<close>

definition digitChar :: "int \<Rightarrow> char" where
  "digitChar d = ''0123456789'' ! nat (d mod 10)"

function decimalDigits :: "int \<Rightarrow> string" where
  "decimalDigits n =
     (if n < 10 then [digitChar n] else decimalDigits (n div 10) @ [digitChar (n mod 10)])"
  by pat_completeness auto
termination
  by (relation "measure nat") auto

declare decimalDigits.simps [simp del]

fun groupRev :: "string \<Rightarrow> string" where
  "groupRev (a # b # c # d # rest) = a # b # c # CHR ''.'' # groupRev (d # rest)"
| "groupRev ds = ds"

definition hundredths :: "number \<Rightarrow> int" where
  "hundredths x = \<lfloor>x * 100 + 1 / 2\<rfloor>"

definition wholePart :: "number \<Rightarrow> string" where
  "wholePart x = rev (groupRev (rev (decimalDigits (hundredths x div 100))))"

definition fractionPart :: "number \<Rightarrow> string" where
  "fractionPart x = [digitChar (hundredths x mod 100 div 10), digitChar (hundredths x mod 10)]"

definition toLocaleString_ptBR :: "number \<Rightarrow> string" where
  "toLocaleString_ptBR x = wholePart x @ '','' @ fractionPart x"

text \<open>
  Reading a printed number back, to say what a string of digits stands for: the value of
  a digit character, and of a string of them read from the left.
\<close>

definition digitValue :: "char \<Rightarrow> int" where
  "digitValue c = int (length (takeWhile (\<lambda>d. d \<noteq> c) ''0123456789''))"

definition digitsValue :: "string \<Rightarrow> int" where
  "digitsValue cs = foldl (\<lambda>a c. 10 * a + digitValue c) 0 cs"

text \<open>
  The text of the \<^verbatim>\<open>font-medium\<close> box for \<^verbatim>\<open>value = item[header]\<close> (\<open>None\<close> is
  \<^verbatim>\<open>undefined\<close>); React shows nothing for \<^verbatim>\<open>true\<close>.
\<close>

fun renderValue :: "jsval option \<Rightarrow> string" where
  "renderValue (Some (JNum v)) =
     (if v < 0 then ''-R$ '' else ''R$ '') @ toLocaleString_ptBR \<bar>v\<bar>"
| "renderValue (Some (JStr s)) = (if s = [] then ''-'' else s)"
| "renderValue (Some (JBool b)) = (if b then [] else ''-'')"
| "renderValue (Some JNull) = ''-''"
| "renderValue None = ''-''"

section \<open>Reachable page states\<close>

text \<open>The state once the component is mounted and \<^verbatim>\<open>initializeDashboard\<close> awaits the tabs.\<close>

definition emptySelection :: selection where
  "emptySelection =
     \<lparr>cellSelecionada = {}, cabecalhoSelecionado = {}, indicadorSelecionado = {},
      lastClickedCoords = None, startCellCoords = None, isMouseDown = False\<rparr>"

definition initialDashboard :: dashboard where
  "initialDashboard =
     \<lparr>initialLoading = True, currentTabLoading = False, data = None, error = [],
      sheetTabs = [], selectedTab = [], availableYears = [], selectedYears = [],
      replacedWithLogin = False, tabsAwaited = True, dataAwaited = [], sel = emptySelection\<rparr>"

text \<open>
  The tab selector is rendered when the page is past its loading and error screens and
  there are tabs; it is \<^verbatim>\<open>disabled={currentTabLoading}\<close>.
\<close>

definition tabSelectorEnabled :: "dashboard \<Rightarrow> bool" where
  "tabSelectorEnabled s =
     (\<not> initialLoading s \<and> error s = [] \<and> length (sheetTabs s) > 0 \<and> \<not> currentTabLoading s)"

definition yearSelectorShown :: "dashboard \<Rightarrow> bool" where
  "yearSelectorShown s = (\<not> initialLoading s \<and> error s = [] \<and> length (availableYears s) > 0)"

text \<open>
  What the interface and the network can do to the page: a response to a request that
  is awaited, a change of the tab selector while it is enabled, the year checkboxes, and
  any change of the selection.
\<close>

inductive reachable :: "dashboard \<Rightarrow> bool" where
  mounted: "reachable initialDashboard"
| tabs: "reachable s \<Longrightarrow> tabsAwaited s \<Longrightarrow> reachable (tabsResponse outcome s)"
| records: "reachable s \<Longrightarrow> tabName \<in> set (dataAwaited s) \<Longrightarrow>
     reachable (dataResponse tabName outcome s)"
| tabChange: "reachable s \<Longrightarrow> tabSelectorEnabled s \<Longrightarrow> targetValue \<in> set (sheetTabs s) \<Longrightarrow>
     reachable (handleTabChange targetValue s)"
| yearToggle: "reachable s \<Longrightarrow> yearSelectorShown s \<Longrightarrow> year \<in> set (availableYears s) \<Longrightarrow>
     reachable (handleYearToggle year s)"
| toggleAllYears: "reachable s \<Longrightarrow> yearSelectorShown s \<Longrightarrow>
     reachable (handleToggleAllYears checkAll s)"
| pointer: "reachable s \<Longrightarrow> reachable (s\<lparr>sel := x\<rparr>)"


section \<open>The rendered table\<close>

text \<open>
  The table the page renders, when it renders one: a row per header, a year header per
  selected year, and a \<^verbatim>\<open>planilha-valor\<close> cell where \<^verbatim>\<open>data.find(d => d.ano === year)\<close>
  finds a record. There is no table on the loading and error screens, nor when the
  filtered data is empty (\<^verbatim>\<open>showNoDataMessage\<close>).
\<close>

definition tableRef :: "dashboard \<Rightarrow> table option" where
  "tableRef s =
     (if initialLoading s \<or> error s \<noteq> [] then None
      else
        (case data s of
           None \<Rightarrow> None
         | Some items \<Rightarrow>
             (case filteredData (data s) (selectedYears s) of
                None \<Rightarrow> None
              | Some [] \<Rightarrow> None
              | Some (first # rest) \<Rightarrow>
                  (let headers = tableHeaders (Some (first # rest));
                       years = selectedYears s
                   in Some
                     \<lparr>valueCells =
                        concat (map (\<lambda>rowIndex.
                          concat (map (\<lambda>colIndex.
                            (case find (\<lambda>d. ano d = AnoNum (years ! colIndex)) items of
                               None \<Rightarrow> []
                             | Some item \<Rightarrow> [(int rowIndex, int colIndex)]))
                            [0..<length years]))
                          [0..<length headers]),
                      colHeaders = map int [0..<length years],
                      rowHeaders = map int [0..<length headers]\<rparr>))))"

text \<open>
  Two pointer events on the page: a press without modifier keys on a value cell of the
  rendered table, and a press outside the table (on the tab selector, say, or in the
  year dropdown), which the document's \<^verbatim>\<open>mousedown\<close> listener sees.
\<close>

definition cellPressed :: "coords \<Rightarrow> dashboard \<Rightarrow> dashboard" where
  "cellPressed c s =
     (case tableRef s of
        None \<Rightarrow> s
      | Some t \<Rightarrow>
          s\<lparr>sel := snd (handleCellMouseDown t
                 \<lparr>ctrlKey = False, metaKey = False, shiftKey = False\<rparr> c (sel s))\<rparr>)"

definition pressedOutside :: "dashboard \<Rightarrow> dashboard" where
  "pressedOutside s = s\<lparr>sel := handleClickOutside (tableRef s) False (sel s)\<rparr>"

section \<open>Example inputs\<close>

definition yearItem :: "ano_value \<Rightarrow> SheetDataItem" where
  "yearItem a = \<lparr>ano = a, props = [(''Receita'', JNum 100), (''Custo'', JNum (- 40))],
     percentuais = None\<rparr>"

definition threeYears :: "SheetDataItem list" where
  "threeYears = [yearItem (AnoNum 2024), yearItem (AnoNum 2022), yearItem (AnoNum 2023)]"

text \<open>Two records that do not have the same keys.\<close>

definition mixedYears :: "SheetDataItem list" where
  "mixedYears =
     [\<lparr>ano = AnoNum 2022, props = [(''Receita'', JNum 100)], percentuais = None\<rparr>,
      \<lparr>ano = AnoNum 2023, props = [(''Custo'', JNum (- 40))], percentuais = None\<rparr>]"

definition grid2x2 :: table where
  "grid2x2 = \<lparr>valueCells = [(0, 0), (0, 1), (1, 0), (1, 1)], colHeaders = [0, 1],
     rowHeaders = [0, 1]\<rparr>"

definition noKeys :: mouse_event where
  "noKeys = \<lparr>ctrlKey = False, metaKey = False, shiftKey = False\<rparr>"

definition shiftOnly :: mouse_event where
  "shiftOnly = \<lparr>ctrlKey = False, metaKey = False, shiftKey = True\<rparr>"

text \<open>A page showing the tab \<^verbatim>\<open>2023\<close> with its three years, nothing awaited.\<close>

definition readyDashboard :: dashboard where
  "readyDashboard =
     \<lparr>initialLoading = False, currentTabLoading = False, data = Some threeYears, error = [],
      sheetTabs = [''2023'', ''2024''], selectedTab = ''2023'',
      availableYears = [2022, 2023, 2024], selectedYears = [2022, 2023, 2024],
      replacedWithLogin = False, tabsAwaited = False, dataAwaited = [], sel = emptySelection\<rparr>"

text \<open>
  The page after the tab list \<^verbatim>\<open>2023\<close>, \<^verbatim>\<open>2024\<close> and then the two mixed records for the
  first tab have arrived.
\<close>

definition mixedDashboard :: dashboard where
  "mixedDashboard =
     dataResponse ''2023'' (Inr mixedYears) (tabsResponse (Inr [''2023'', ''2024'']) initialDashboard)"

section \<open>Properties of the selection\<close>

text \<open>
  C6. After \<^verbatim>\<open>clearSelection\<close>, whatever the selection was, no cell, no year header and no
  indicator header is selected (each of the three sets has size zero) and there is no
  last-clicked anchor.
\<close>

theorem clearSelection_empties_all:
  "cellSelecionada (clearSelection s) = {} \<and> card (cellSelecionada (clearSelection s)) = 0 \<and>
   cabecalhoSelecionado (clearSelection s) = {} \<and> card (cabecalhoSelecionado (clearSelection s)) = 0 \<and>
   indicadorSelecionado (clearSelection s) = {} \<and> card (indicadorSelecionado (clearSelection s)) = 0 \<and>
   lastClickedCoords (clearSelection s) = None"
  by (simp add: clearSelection_def)

text \<open>
  \<^verbatim>\<open>selectCellsInRange\<close> does not depend on which coordinate is the start, and selects the
  value cells of the rectangle between the two.
\<close>

lemma selectCellsInRange_rectangle:
  "selectCellsInRange t a b s = selectCellsInRange t b a s \<and>
   (\<forall>c \<in> set (valueCells t).
      c \<in> cellSelecionada (selectCellsInRange t a b s) \<longleftrightarrow>
        min (fst a) (fst b) \<le> fst c \<and> fst c \<le> max (fst a) (fst b) \<and>
        min (snd a) (snd b) \<le> snd c \<and> snd c \<le> max (snd a) (snd b))"
proof -
  have "inRange a b = inRange b a"
    by (rule ext) (simp add: inRange_def min.commute max.commute)
  then have comm: "selectCellsInRange t a b s = selectCellsInRange t b a s"
    by (simp add: selectCellsInRange_def)
  have rect: "\<forall>c \<in> set (valueCells t).
      c \<in> cellSelecionada (selectCellsInRange t a b s) \<longleftrightarrow>
        min (fst a) (fst b) \<le> fst c \<and> fst c \<le> max (fst a) (fst b) \<and>
        min (snd a) (snd b) \<le> snd c \<and> snd c \<le> max (snd a) (snd b)"
    by (simp add: selectCellsInRange_def inRange_def Let_def)
  from comm rect show ?thesis by blast
qed

text \<open>
  C4 fails on the code. Press the cell in row 0 and column 0 of a table of two rows and
  two columns, then shift-press the cell in row 1 and column 1. The range selection
  should select the four cells between them, as \<^verbatim>\<open>selectCellsInRange\<close> does for these two
  coordinates and as the drag from the first cell over the second does. Instead the
  handler clears the selection and then fails on the anchor it cleared, and no cell is
  selected. The shift-click on a year header reads the anchor before it clears, and
  selects both columns.
\<close>

theorem shift_click_on_cell_selects_nothing:
  "handleCellMouseDown grid2x2 noKeys (0, 0) emptySelection =
     (None, emptySelection\<lparr>cellSelecionada := {(0, 0)},
        lastClickedCoords := Some \<lparr>crow = 0, ccol = 0, ctype = Cell\<rparr>,
        startCellCoords := Some (0, 0), isMouseDown := True\<rparr>) \<and>
   handleCellMouseDown grid2x2 shiftOnly (1, 1)
     (snd (handleCellMouseDown grid2x2 noKeys (0, 0) emptySelection)) =
     (Some TypeError, emptySelection\<lparr>startCellCoords := Some (0, 0), isMouseDown := True\<rparr>) \<and>
   cellSelecionada (snd (handleCellMouseDown grid2x2 shiftOnly (1, 1)
     (snd (handleCellMouseDown grid2x2 noKeys (0, 0) emptySelection)))) = {} \<and>
   cellSelecionada (selectCellsInRange grid2x2 (0, 0) (1, 1) emptySelection) =
     {(0, 0), (0, 1), (1, 0), (1, 1)} \<and>
   cellSelecionada (handleCellMouseOver grid2x2 (1, 1)
     (snd (handleCellMouseDown grid2x2 noKeys (0, 0) emptySelection))) =
     {(0, 0), (0, 1), (1, 0), (1, 1)} \<and>
   cabecalhoSelecionado (handleColHeaderClick grid2x2 shiftOnly 1
     (handleColHeaderClick grid2x2 noKeys 0 emptySelection)) = {0, 1} \<and>
   cellSelecionada (handleColHeaderClick grid2x2 shiftOnly 1
     (handleColHeaderClick grid2x2 noKeys 0 emptySelection)) = {(0, 0), (0, 1), (1, 0), (1, 1)}"
proof -
  have press: "handleCellMouseDown grid2x2 noKeys (0, 0) emptySelection =
     (None, emptySelection\<lparr>cellSelecionada := {(0, 0)},
        lastClickedCoords := Some \<lparr>crow = 0, ccol = 0, ctype = Cell\<rparr>,
        startCellCoords := Some (0, 0), isMouseDown := True\<rparr>)"
    by (simp add: handleCellMouseDown_def noKeys_def clearSelection_def emptySelection_def)
  have shift: "handleCellMouseDown grid2x2 shiftOnly (1, 1)
     (snd (handleCellMouseDown grid2x2 noKeys (0, 0) emptySelection)) =
     (Some TypeError, emptySelection\<lparr>startCellCoords := Some (0, 0), isMouseDown := True\<rparr>)"
    unfolding press
    by (simp add: handleCellMouseDown_def shiftOnly_def clearSelection_def emptySelection_def)
  have none_selected: "cellSelecionada (snd (handleCellMouseDown grid2x2 shiftOnly (1, 1)
     (snd (handleCellMouseDown grid2x2 noKeys (0, 0) emptySelection)))) = {}"
    unfolding shift by (simp add: emptySelection_def)
  have rect: "cellSelecionada (selectCellsInRange grid2x2 (0, 0) (1, 1) emptySelection) =
     {(0, 0), (0, 1), (1, 0), (1, 1)}"
    by (auto simp add: selectCellsInRange_def inRange_def grid2x2_def emptySelection_def)
  have drag: "cellSelecionada (handleCellMouseOver grid2x2 (1, 1)
     (snd (handleCellMouseDown grid2x2 noKeys (0, 0) emptySelection))) =
     {(0, 0), (0, 1), (1, 0), (1, 1)}"
    unfolding press
    by (auto simp add: handleCellMouseOver_def selectCellsInRange_def inRange_def grid2x2_def
        emptySelection_def)
  have upto01: "[0..1] = [0, 1 :: int]"
    by (simp add: upto.simps)
  have cols: "handleColHeaderClick grid2x2 shiftOnly 1
     (handleColHeaderClick grid2x2 noKeys 0 emptySelection) =
       emptySelection\<lparr>cabecalhoSelecionado := {0, 1},
         cellSelecionada := {(0, 0), (0, 1), (1, 0), (1, 1)}\<rparr>"
    by (auto simp add: handleColHeaderClick_def noKeys_def shiftOnly_def clearSelection_def
        addCol_def cellsInCol_def grid2x2_def emptySelection_def upto01)
  from cols have colHeads: "cabecalhoSelecionado (handleColHeaderClick grid2x2 shiftOnly 1
     (handleColHeaderClick grid2x2 noKeys 0 emptySelection)) = {0, 1}"
    and colCells: "cellSelecionada (handleColHeaderClick grid2x2 shiftOnly 1
     (handleColHeaderClick grid2x2 noKeys 0 emptySelection)) = {(0, 0), (0, 1), (1, 0), (1, 1)}"
    by simp_all
  show ?thesis
    by (intro conjI press shift none_selected rect drag colHeads colCells)
qed

text \<open>
  C5. A shift-click (without ctrl or meta) whose kind differs from the kind of the
  last-clicked anchor, or that finds no anchor, does what the plain click does: the
  earlier selection is cleared, only the clicked cell, or the clicked column or row with
  its header, is selected, and the anchor becomes the clicked coordinate with its kind.
\<close>

theorem range_without_matching_anchor_degrades:
  assumes "shiftKey e" and "\<not> ctrlKey e" and "\<not> metaKey e"
  shows
   "(map_option ctype (lastClickedCoords s) \<noteq> Some Cell \<longrightarrow>
       handleCellMouseDown t e c s = handleCellMouseDown t (e\<lparr>shiftKey := False\<rparr>) c s \<and>
       fst (handleCellMouseDown t e c s) = None \<and>
       cellSelecionada (snd (handleCellMouseDown t e c s)) = {c} \<and>
       cabecalhoSelecionado (snd (handleCellMouseDown t e c s)) = {} \<and>
       indicadorSelecionado (snd (handleCellMouseDown t e c s)) = {} \<and>
       lastClickedCoords (snd (handleCellMouseDown t e c s)) =
         Some \<lparr>crow = fst c, ccol = snd c, ctype = Cell\<rparr>) \<and>
    (map_option ctype (lastClickedCoords s) \<noteq> Some Col \<longrightarrow>
       handleColHeaderClick t e i s = handleColHeaderClick t (e\<lparr>shiftKey := False\<rparr>) i s \<and>
       cellSelecionada (handleColHeaderClick t e i s) = set (cellsInCol t i) \<and>
       cabecalhoSelecionado (handleColHeaderClick t e i s) = {i} \<and>
       indicadorSelecionado (handleColHeaderClick t e i s) = {} \<and>
       lastClickedCoords (handleColHeaderClick t e i s) =
         Some \<lparr>crow = - 1, ccol = i, ctype = Col\<rparr>) \<and>
    (map_option ctype (lastClickedCoords s) \<noteq> Some Row \<longrightarrow>
       handleRowHeaderClick t e i s = handleRowHeaderClick t (e\<lparr>shiftKey := False\<rparr>) i s \<and>
       cellSelecionada (handleRowHeaderClick t e i s) = set (cellsInRow t i) \<and>
       cabecalhoSelecionado (handleRowHeaderClick t e i s) = {} \<and>
       indicadorSelecionado (handleRowHeaderClick t e i s) = {i} \<and>
       lastClickedCoords (handleRowHeaderClick t e i s) =
         Some \<lparr>crow = i, ccol = - 1, ctype = Row\<rparr>)"
proof -
  have cell: "map_option ctype (lastClickedCoords s) \<noteq> Some Cell \<Longrightarrow>
       handleCellMouseDown t e c s = handleCellMouseDown t (e\<lparr>shiftKey := False\<rparr>) c s \<and>
       fst (handleCellMouseDown t e c s) = None \<and>
       cellSelecionada (snd (handleCellMouseDown t e c s)) = {c} \<and>
       cabecalhoSelecionado (snd (handleCellMouseDown t e c s)) = {} \<and>
       indicadorSelecionado (snd (handleCellMouseDown t e c s)) = {} \<and>
       lastClickedCoords (snd (handleCellMouseDown t e c s)) =
         Some \<lparr>crow = fst c, ccol = snd c, ctype = Cell\<rparr>"
    using assms
    by (cases "lastClickedCoords s") (simp_all add: handleCellMouseDown_def clearSelection_def Let_def)
  have col: "map_option ctype (lastClickedCoords s) \<noteq> Some Col \<Longrightarrow>
       handleColHeaderClick t e i s = handleColHeaderClick t (e\<lparr>shiftKey := False\<rparr>) i s \<and>
       cellSelecionada (handleColHeaderClick t e i s) = set (cellsInCol t i) \<and>
       cabecalhoSelecionado (handleColHeaderClick t e i s) = {i} \<and>
       indicadorSelecionado (handleColHeaderClick t e i s) = {} \<and>
       lastClickedCoords (handleColHeaderClick t e i s) =
         Some \<lparr>crow = - 1, ccol = i, ctype = Col\<rparr>"
    using assms
    by (cases "lastClickedCoords s") (simp_all add: handleColHeaderClick_def clearSelection_def Let_def)
  have row: "map_option ctype (lastClickedCoords s) \<noteq> Some Row \<Longrightarrow>
       handleRowHeaderClick t e i s = handleRowHeaderClick t (e\<lparr>shiftKey := False\<rparr>) i s \<and>
       cellSelecionada (handleRowHeaderClick t e i s) = set (cellsInRow t i) \<and>
       cabecalhoSelecionado (handleRowHeaderClick t e i s) = {} \<and>
       indicadorSelecionado (handleRowHeaderClick t e i s) = {i} \<and>
       lastClickedCoords (handleRowHeaderClick t e i s) =
         Some \<lparr>crow = i, ccol = - 1, ctype = Row\<rparr>"
    using assms
    by (cases "lastClickedCoords s") (simp_all add: handleRowHeaderClick_def clearSelection_def Let_def)
  from cell col row show ?thesis by blast
qed

theorem range_without_matching_anchor_degrades_witness:
  "handleColHeaderClick grid2x2 shiftOnly 1 (snd (handleCellMouseDown grid2x2 noKeys (0, 0) emptySelection)) =
   handleColHeaderClick grid2x2 noKeys 1 (snd (handleCellMouseDown grid2x2 noKeys (0, 0) emptySelection)) \<and>
   cellSelecionada (handleColHeaderClick grid2x2 shiftOnly 1
      (snd (handleCellMouseDown grid2x2 noKeys (0, 0) emptySelection))) = {(0, 1), (1, 1)} \<and>
   handleCellMouseDown grid2x2 shiftOnly (1, 0) (handleColHeaderClick grid2x2 noKeys 1 emptySelection) =
   handleCellMouseDown grid2x2 noKeys (1, 0) (handleColHeaderClick grid2x2 noKeys 1 emptySelection) \<and>
   cellSelecionada (snd (handleCellMouseDown grid2x2 shiftOnly (1, 0)
      (handleColHeaderClick grid2x2 noKeys 1 emptySelection))) = {(1, 0)} \<and>
   handleRowHeaderClick grid2x2 shiftOnly 0 (handleColHeaderClick grid2x2 noKeys 1 emptySelection) =
   handleRowHeaderClick grid2x2 noKeys 0 (handleColHeaderClick grid2x2 noKeys 1 emptySelection) \<and>
   indicadorSelecionado (handleRowHeaderClick grid2x2 shiftOnly 0
      (handleColHeaderClick grid2x2 noKeys 1 emptySelection)) = {0}"
proof -
  have keys: "shiftKey shiftOnly" "\<not> ctrlKey shiftOnly" "\<not> metaKey shiftOnly"
    and off: "shiftOnly\<lparr>shiftKey := False\<rparr> = noKeys"
    by (simp_all add: shiftOnly_def noKeys_def)
  have afterCell: "map_option ctype (lastClickedCoords
      (snd (handleCellMouseDown grid2x2 noKeys (0, 0) emptySelection))) \<noteq> Some Col"
    by (simp add: handleCellMouseDown_def noKeys_def clearSelection_def emptySelection_def)
  have afterCol: "map_option ctype (lastClickedCoords
      (handleColHeaderClick grid2x2 noKeys 1 emptySelection)) \<noteq> Some Cell"
    "map_option ctype (lastClickedCoords
      (handleColHeaderClick grid2x2 noKeys 1 emptySelection)) \<noteq> Some Row"
    by (simp_all add: handleColHeaderClick_def noKeys_def clearSelection_def emptySelection_def)
  have col1: "set (cellsInCol grid2x2 1) = {(0, 1), (1, 1)}"
    by (auto simp add: cellsInCol_def grid2x2_def)
  note colFact = range_without_matching_anchor_degrades
         [OF keys, where s = "snd (handleCellMouseDown grid2x2 noKeys (0, 0) emptySelection)"
            and t = grid2x2 and i = 1, THEN conjunct2, THEN conjunct1, THEN mp, OF afterCell,
          unfolded off col1]
  note cellFact = range_without_matching_anchor_degrades
         [OF keys, where s = "handleColHeaderClick grid2x2 noKeys 1 emptySelection"
            and t = grid2x2 and c = "(1, 0)", THEN conjunct1, THEN mp, OF afterCol(1),
          unfolded off]
  note rowFact = range_without_matching_anchor_degrades
         [OF keys, where s = "handleColHeaderClick grid2x2 noKeys 1 emptySelection"
            and t = grid2x2 and i = 0, THEN conjunct2, THEN conjunct2, THEN mp, OF afterCol(2),
          unfolded off]
  from colFact have a: "handleColHeaderClick grid2x2 shiftOnly 1 (snd (handleCellMouseDown grid2x2 noKeys (0, 0) emptySelection)) =
   handleColHeaderClick grid2x2 noKeys 1 (snd (handleCellMouseDown grid2x2 noKeys (0, 0) emptySelection)) \<and>
   cellSelecionada (handleColHeaderClick grid2x2 shiftOnly 1
      (snd (handleCellMouseDown grid2x2 noKeys (0, 0) emptySelection))) = {(0, 1), (1, 1)}"
    by blast
  from cellFact have b: "handleCellMouseDown grid2x2 shiftOnly (1, 0) (handleColHeaderClick grid2x2 noKeys 1 emptySelection) =
   handleCellMouseDown grid2x2 noKeys (1, 0) (handleColHeaderClick grid2x2 noKeys 1 emptySelection) \<and>
   cellSelecionada (snd (handleCellMouseDown grid2x2 shiftOnly (1, 0)
      (handleColHeaderClick grid2x2 noKeys 1 emptySelection))) = {(1, 0)}"
    by blast
  from rowFact have c: "handleRowHeaderClick grid2x2 shiftOnly 0 (handleColHeaderClick grid2x2 noKeys 1 emptySelection) =
   handleRowHeaderClick grid2x2 noKeys 0 (handleColHeaderClick grid2x2 noKeys 1 emptySelection) \<and>
   indicadorSelecionado (handleRowHeaderClick grid2x2 shiftOnly 0
      (handleColHeaderClick grid2x2 noKeys 1 emptySelection)) = {0}"
    by blast
  from a b c show ?thesis by blast
qed

text \<open>
  With a cell as the anchor, the shift-click on a cell clears the selection, the anchor
  with it, and then fails on the anchor it has just cleared.
\<close>

lemma handleCellMouseDown_shift_on_cell_anchor:
  assumes "shiftKey e" and "\<not> ctrlKey e" and "\<not> metaKey e"
    and "lastClickedCoords s = Some a" and "ctype a = Cell"
  shows "handleCellMouseDown t e c s = (Some TypeError, clearSelection (s\<lparr>isMouseDown := True\<rparr>))"
  using assms by (simp add: handleCellMouseDown_def clearSelection_def)

section \<open>Properties of the loaded data\<close>

lemma tabs_arrived:
  "tabsResponse (Inr [''2023'', ''2024'']) initialDashboard =
     initialDashboard\<lparr>sheetTabs := [''2023'', ''2024''], selectedTab := ''2023'',
       initialLoading := False, tabsAwaited := False, currentTabLoading := True,
       dataAwaited := [''2023'']\<rparr>"
  by (simp add: tabsResponse_def initializeDashboard_settle_def tabEffect_def
      loadSheetsData_call_def initialDashboard_def)

lemma tabs_arrived_reachable: "reachable (tabsResponse (Inr [''2023'', ''2024'']) initialDashboard)"
proof -
  have "tabsAwaited initialDashboard"
    by (simp add: initialDashboard_def)
  with reachable.mounted show ?thesis
    by (rule reachable.tabs)
qed

lemma records_arrived_reachable:
  "reachable (dataResponse ''2023'' outcome (tabsResponse (Inr [''2023'', ''2024'']) initialDashboard))"
proof -
  have "''2023'' \<in> set (dataAwaited (tabsResponse (Inr [''2023'', ''2024'']) initialDashboard))"
    by (simp add: tabs_arrived)
  with tabs_arrived_reachable show ?thesis
    by (rule reachable.records)
qed

lemma readyDashboard_trace:
  "readyDashboard =
     dataResponse ''2023'' (Inr threeYears) (tabsResponse (Inr [''2023'', ''2024'']) initialDashboard)"
  unfolding tabs_arrived
  by (simp add: dataResponse_def loadSheetsData_settle_def Let_def loadedYears_def
      initialDashboard_def readyDashboard_def)
     (simp add: threeYears_def yearItem_def)

lemma readyDashboard_reachable: "reachable readyDashboard"
  unfolding readyDashboard_trace by (rule records_arrived_reachable)

lemma mixedDashboard_value:
  "mixedDashboard =
     initialDashboard\<lparr>sheetTabs := [''2023'', ''2024''], selectedTab := ''2023'',
       initialLoading := False, tabsAwaited := False, currentTabLoading := False,
       dataAwaited := [], data := Some mixedYears, availableYears := [2022, 2023],
       selectedYears := [2022, 2023]\<rparr>"
  unfolding mixedDashboard_def tabs_arrived
  by (simp add: dataResponse_def loadSheetsData_settle_def Let_def loadedYears_def
      initialDashboard_def)
     (simp add: mixedYears_def)

lemma mixedDashboard_reachable: "reachable mixedDashboard"
  unfolding mixedDashboard_def by (rule records_arrived_reachable)

text \<open>
  C1, as stated, fails, in two ways, each on a page reached from the mounted component by
  the arrival of the tabs and of the records. With the three same-keyed records loaded,
  unchecking all years leaves the records and the tab as they are and turns the headers
  \<^verbatim>\<open>Receita\<close>, \<^verbatim>\<open>Custo\<close> into none. With the two mixed records loaded, the headers are
  \<^verbatim>\<open>Receita\<close>, the keys of the first record; unchecking 2022 makes them \<^verbatim>\<open>Custo\<close>, the
  keys of the other record: \<^verbatim>\<open>tableHeaders\<close> is a memo on \<^verbatim>\<open>filteredData\<close> and reads its
  first record, not the first record that was loaded.
\<close>

theorem headers_change_with_year_filter:
  "reachable (handleToggleAllYears False readyDashboard) \<and>
   data (handleToggleAllYears False readyDashboard) = data readyDashboard \<and>
   selectedTab (handleToggleAllYears False readyDashboard) = selectedTab readyDashboard \<and>
   shownHeaders readyDashboard = [''Receita'', ''Custo''] \<and>
   shownHeaders (handleToggleAllYears False readyDashboard) = [] \<and>
   reachable (handleYearToggle 2022 mixedDashboard) \<and>
   data (handleYearToggle 2022 mixedDashboard) = data mixedDashboard \<and>
   selectedTab (handleYearToggle 2022 mixedDashboard) = selectedTab mixedDashboard \<and>
   shownHeaders mixedDashboard = [''Receita''] \<and>
   shownHeaders (handleYearToggle 2022 mixedDashboard) = [''Custo'']"
proof -
  have shown: "yearSelectorShown readyDashboard"
    by (simp add: yearSelectorShown_def readyDashboard_def)
  with readyDashboard_reachable
  have r1: "reachable (handleToggleAllYears False readyDashboard)"
    by (rule reachable.toggleAllYears)
  have "yearSelectorShown mixedDashboard" and "2022 \<in> set (availableYears mixedDashboard)"
    by (simp_all add: mixedDashboard_value yearSelectorShown_def initialDashboard_def)
  with mixedDashboard_reachable
  have r2: "reachable (handleYearToggle 2022 mixedDashboard)"
    by (rule reachable.yearToggle)
  have three: "data (handleToggleAllYears False readyDashboard) = data readyDashboard \<and>
   selectedTab (handleToggleAllYears False readyDashboard) = selectedTab readyDashboard \<and>
   shownHeaders readyDashboard = [''Receita'', ''Custo''] \<and>
   shownHeaders (handleToggleAllYears False readyDashboard) = []"
    by (simp add: handleToggleAllYears_def readyDashboard_def shownHeaders_def filteredData_def
        tableHeaders_def threeYears_def yearItem_def objectKeys_def)
  have mixed: "data (handleYearToggle 2022 mixedDashboard) = data mixedDashboard \<and>
   selectedTab (handleYearToggle 2022 mixedDashboard) = selectedTab mixedDashboard \<and>
   shownHeaders mixedDashboard = [''Receita''] \<and>
   shownHeaders (handleYearToggle 2022 mixedDashboard) = [''Custo'']"
    unfolding mixedDashboard_value
    by (simp add: handleYearToggle_def toggleYear_def shownHeaders_def filteredData_def
        tableHeaders_def mixedYears_def objectKeys_def)
  from r1 three r2 mixed show ?thesis
    by blast
qed

lemma filteredData_subset:
  "filteredData (Some items) ys = Some fs \<Longrightarrow> set fs \<subseteq> set items"
  by (auto simp add: filteredData_def split: if_splits)

lemma tableHeaders_first: "tableHeaders (Some (first # rest)) = tableHeaders (Some [first])"
  by (simp add: tableHeaders_def)

lemma tableHeaders_filter:
  "tableHeaders (Some (filter P xs)) =
     (case find P xs of
        None \<Rightarrow> []
      | Some first \<Rightarrow> filter (\<lambda>key. key \<noteq> ''ano'' \<and> key \<noteq> ''percentuais'') (objectKeys first))"
proof (induction xs)
  case Nil
  show ?case by (simp add: tableHeaders_def)
next
  case (Cons x xs)
  show ?case
  proof (cases "P x")
    case True
    then show ?thesis by (simp add: tableHeaders_def)
  next
    case False
    with Cons show ?thesis by simp
  qed
qed

lemma includes_ano_none: "includes_ano [] a = False"
  by (cases a) simp_all

text \<open>
  C1, amended. The headers are recomputed from the filtered records: they are empty when
  no record has a selected year and otherwise are the keys (without \<^verbatim>\<open>ano\<close> and
  \<^verbatim>\<open>percentuais\<close>) of the first record that has one. So when every record of the loaded
  set has the same header sequence \<open>h\<close>, each selection of years that matches a record
  shows \<open>h\<close>, and two such selections show the same headers.
\<close>

theorem tableHeaders_follow_filtered_records:
  "tableHeaders (filteredData (Some items) ys) =
     (case find (\<lambda>item. truthy_ano (ano item) \<and> includes_ano ys (ano item)) items of
        None \<Rightarrow> []
      | Some first \<Rightarrow> filter (\<lambda>key. key \<noteq> ''ano'' \<and> key \<noteq> ''percentuais'') (objectKeys first)) \<and>
   ((\<forall>item \<in> set items. tableHeaders (Some [item]) = h) \<and>
    filteredData (Some items) ys \<noteq> Some [] \<and> filteredData (Some items) zs \<noteq> Some [] \<longrightarrow>
      tableHeaders (filteredData (Some items) ys) = h \<and>
      tableHeaders (filteredData (Some items) zs) = h \<and>
      tableHeaders (filteredData (Some items) ys) = tableHeaders (filteredData (Some items) zs))"
proof -
  have first: "tableHeaders (filteredData (Some items) ys) =
     (case find (\<lambda>item. truthy_ano (ano item) \<and> includes_ano ys (ano item)) items of
        None \<Rightarrow> []
      | Some first \<Rightarrow> filter (\<lambda>key. key \<noteq> ''ano'' \<and> key \<noteq> ''percentuais'') (objectKeys first))"
  proof (cases "ys = []")
    case True
    have "find (\<lambda>item. truthy_ano (ano item) \<and> includes_ano [] (ano item)) items = None"
      by (simp add: find_None_iff includes_ano_none)
    with True show ?thesis
      by (simp add: filteredData_def tableHeaders_def)
  next
    case False
    then have "filteredData (Some items) ys =
        Some (filter (\<lambda>item. truthy_ano (ano item) \<and> includes_ano ys (ano item)) items)"
      by (simp add: filteredData_def)
    then show ?thesis
      by (simp only: tableHeaders_filter)
  qed
  have one: "tableHeaders (filteredData (Some items) sel) = h"
    if same: "\<forall>item \<in> set items. tableHeaders (Some [item]) = h"
      and ne: "filteredData (Some items) sel \<noteq> Some []" for sel
  proof -
    obtain fs where fs: "filteredData (Some items) sel = Some fs"
      by (cases "sel = []") (simp_all add: filteredData_def)
    with ne obtain x rest where cons: "fs = x # rest"
      by (cases fs) simp_all
    with filteredData_subset [OF fs] have "x \<in> set items" by simp
    with same have "tableHeaders (Some [x]) = h" by blast
    with fs cons show ?thesis
      by (simp add: tableHeaders_first [of x rest])
  qed
  have both: "tableHeaders (filteredData (Some items) ys) = h \<and>
      tableHeaders (filteredData (Some items) zs) = h \<and>
      tableHeaders (filteredData (Some items) ys) = tableHeaders (filteredData (Some items) zs)"
    if "(\<forall>item \<in> set items. tableHeaders (Some [item]) = h) \<and>
    filteredData (Some items) ys \<noteq> Some [] \<and> filteredData (Some items) zs \<noteq> Some []"
    using that one [of ys] one [of zs] by simp
  from first both show ?thesis
    by blast
qed

theorem tableHeaders_follow_filtered_records_witness:
  "tableHeaders (filteredData (Some mixedYears) [2023]) = [''Custo''] \<and>
   tableHeaders (filteredData (Some mixedYears) [2022, 2023]) = [''Receita''] \<and>
   tableHeaders (filteredData (Some mixedYears) []) = [] \<and>
   tableHeaders (filteredData (Some threeYears) [2022]) = [''Receita'', ''Custo''] \<and>
   tableHeaders (filteredData (Some threeYears) [2022]) =
     tableHeaders (filteredData (Some threeYears) [2023, 2024])"
proof -
  have same: "\<forall>item \<in> set threeYears. tableHeaders (Some [item]) = [''Receita'', ''Custo'']"
    by (simp add: threeYears_def yearItem_def tableHeaders_def objectKeys_def)
  have ne: "filteredData (Some threeYears) [2022] \<noteq> Some []"
    "filteredData (Some threeYears) [2023, 2024] \<noteq> Some []"
    by (simp_all add: filteredData_def threeYears_def yearItem_def)
  note fact = tableHeaders_follow_filtered_records
  from fact [of mixedYears "[2023]", THEN conjunct1]
  have a: "tableHeaders (filteredData (Some mixedYears) [2023]) = [''Custo'']"
    by (simp add: mixedYears_def objectKeys_def)
  from fact [of mixedYears "[2022, 2023]", THEN conjunct1]
  have b: "tableHeaders (filteredData (Some mixedYears) [2022, 2023]) = [''Receita'']"
    by (simp add: mixedYears_def objectKeys_def)
  from fact [of mixedYears "[]", THEN conjunct1]
  have c: "tableHeaders (filteredData (Some mixedYears) []) = []"
    by (simp add: mixedYears_def)
  note threeFact = fact [of threeYears "[2022]" "[''Receita'', ''Custo'']" "[2023, 2024]",
      THEN conjunct2, THEN mp, OF conjI [OF same conjI [OF ne]]]
  from a b c threeFact [THEN conjunct1] threeFact [THEN conjunct2, THEN conjunct2]
  show ?thesis
    by (intro conjI)
qed

lemma sorted_loadedYears: "sorted (loadedYears d)"
  by (simp add: loadedYears_def)

lemma mset_truthy_numbers:
  "mset (concat (map numberOf (filter truthy_ano (map ano xs)))) =
     (\<Sum>item \<in># mset xs. mset (if truthy_ano (ano item) then numberOf (ano item) else []))"
  by (induction xs) simp_all

lemma loadedYears_perm:
  assumes eq: "mset other = mset d"
  shows "loadedYears other = loadedYears d"
proof -
  have "mset (concat (map numberOf (filter truthy_ano (map ano other)))) =
        mset (concat (map numberOf (filter truthy_ano (map ano d))))"
    by (simp only: mset_truthy_numbers eq)
  then have "mset (loadedYears d) = mset (concat (map numberOf (filter truthy_ano (map ano other))))"
    by (simp add: loadedYears_def)
  moreover have "sorted (loadedYears d)"
    by (simp add: loadedYears_def)
  ultimately show ?thesis
    unfolding loadedYears_def [of other] by (rule properties_for_sort)
qed

lemma set_loadedYears: "set (loadedYears d) = {n. AnoNum n \<in> set (map ano d) \<and> n \<noteq> 0}"
proof -
  have "set (concat (map numberOf (filter truthy_ano (map ano xs)))) =
          {n. AnoNum n \<in> set (map ano xs) \<and> n \<noteq> 0}" for xs
  proof (induction xs)
    case Nil
    then show ?case by simp
  next
    case (Cons x xs)
    then show ?case by (cases "ano x") auto
  qed
  then show ?thesis by (simp add: loadedYears_def)
qed

lemma settle_years:
  "availableYears (loadSheetsData_settle (Inr d) s) = loadedYears d"
  "selectedYears (loadSheetsData_settle (Inr d) s) = loadedYears d"
  by (cases d, simp_all add: loadSheetsData_settle_def Let_def loadedYears_def)+

text \<open>
  C7. When a non-empty record set has been loaded, the available years are the years of
  the records in ascending order and the selected years are the same list, whatever the
  order in which the records came and whatever was selected before.
\<close>

theorem loaded_years_sorted_and_all_selected:
  assumes "length sheetsData > 0"
  shows "availableYears (loadSheetsData_settle (Inr sheetsData) s) = loadedYears sheetsData \<and>
     selectedYears (loadSheetsData_settle (Inr sheetsData) s) =
       availableYears (loadSheetsData_settle (Inr sheetsData) s) \<and>
     sorted (availableYears (loadSheetsData_settle (Inr sheetsData) s)) \<and>
     set (availableYears (loadSheetsData_settle (Inr sheetsData) s)) =
       {n. AnoNum n \<in> set (map ano sheetsData) \<and> n \<noteq> 0} \<and>
     (\<forall>other s'. mset other = mset sheetsData \<longrightarrow>
        availableYears (loadSheetsData_settle (Inr other) s') =
          availableYears (loadSheetsData_settle (Inr sheetsData) s) \<and>
        selectedYears (loadSheetsData_settle (Inr other) s') =
          selectedYears (loadSheetsData_settle (Inr sheetsData) s))"
proof -
  have years: "availableYears (loadSheetsData_settle (Inr sheetsData) s) = loadedYears sheetsData"
    and both: "selectedYears (loadSheetsData_settle (Inr sheetsData) s) =
       availableYears (loadSheetsData_settle (Inr sheetsData) s)"
    by (simp_all add: settle_years)
  have ascending: "sorted (availableYears (loadSheetsData_settle (Inr sheetsData) s))"
    by (simp add: settle_years sorted_loadedYears)
  have members: "set (availableYears (loadSheetsData_settle (Inr sheetsData) s)) =
       {n. AnoNum n \<in> set (map ano sheetsData) \<and> n \<noteq> 0}"
    by (simp only: settle_years set_loadedYears)
  have anyOrder: "\<forall>other s'. mset other = mset sheetsData \<longrightarrow>
        availableYears (loadSheetsData_settle (Inr other) s') =
          availableYears (loadSheetsData_settle (Inr sheetsData) s) \<and>
        selectedYears (loadSheetsData_settle (Inr other) s') =
          selectedYears (loadSheetsData_settle (Inr sheetsData) s)"
  proof (intro allI impI)
    fix other s'
    assume "mset other = mset sheetsData"
    then have "loadedYears other = loadedYears sheetsData"
      by (rule loadedYears_perm)
    then show "availableYears (loadSheetsData_settle (Inr other) s') =
          availableYears (loadSheetsData_settle (Inr sheetsData) s) \<and>
        selectedYears (loadSheetsData_settle (Inr other) s') =
          selectedYears (loadSheetsData_settle (Inr sheetsData) s)"
      by (simp only: settle_years)
  qed
  from years both ascending members anyOrder show ?thesis
    by (intro conjI)
qed

theorem loaded_years_sorted_and_all_selected_witness:
  "availableYears (loadSheetsData_settle (Inr threeYears) (readyDashboard\<lparr>selectedYears := [2023]\<rparr>)) =
     [2022, 2023, 2024] \<and>
   selectedYears (loadSheetsData_settle (Inr threeYears) (readyDashboard\<lparr>selectedYears := [2023]\<rparr>)) =
     [2022, 2023, 2024] \<and>
   availableYears (loadSheetsData_settle (Inr (rev threeYears)) initialDashboard) = [2022, 2023, 2024]"
proof -
  have len: "length threeYears > 0"
    by (simp add: threeYears_def)
  have val: "loadedYears threeYears = [2022, 2023, 2024]"
    by (simp add: loadedYears_def threeYears_def yearItem_def)
  have perm: "mset (rev threeYears) = mset threeYears"
    by simp
  note fact = loaded_years_sorted_and_all_selected
                [OF len, of "readyDashboard\<lparr>selectedYears := [2023]\<rparr>"]
  from fact val have a: "availableYears (loadSheetsData_settle (Inr threeYears)
      (readyDashboard\<lparr>selectedYears := [2023]\<rparr>)) = [2022, 2023, 2024]"
    and b: "selectedYears (loadSheetsData_settle (Inr threeYears)
      (readyDashboard\<lparr>selectedYears := [2023]\<rparr>)) = [2022, 2023, 2024]"
    by simp_all
  from fact perm have "availableYears (loadSheetsData_settle (Inr (rev threeYears)) initialDashboard) =
      availableYears (loadSheetsData_settle (Inr threeYears) (readyDashboard\<lparr>selectedYears := [2023]\<rparr>))"
    by blast
  with a b show ?thesis by simp
qed

lemma count_truthy_numbers:
  "count_list (concat (map numberOf (filter truthy_ano (map ano xs)))) n =
     (if n = 0 then 0 else count_list (map ano xs) (AnoNum n))"
proof (induction xs)
  case Nil
  then show ?case by simp
next
  case (Cons x xs)
  then show ?case by (cases "ano x") auto
qed

lemma count_list_sort: "count_list (sort xs) n = count_list xs (n :: number)"
proof -
  have "count (mset (sort xs)) n = count (mset xs) n"
    by simp
  then show ?thesis
    by (simp only: count_mset)
qed

lemma count_loadedYears:
  "count_list (loadedYears d) n = (if n = 0 then 0 else count_list (map ano d) (AnoNum n))"
  by (simp only: loadedYears_def count_list_sort count_truthy_numbers)

lemma loadedYears_drop_falsy:
  "\<not> truthy_ano (ano item) \<Longrightarrow> loadedYears (before @ item # after) = loadedYears (before @ after)"
  by (simp add: loadedYears_def)

lemma filteredData_drop_falsy:
  "\<not> truthy_ano (ano item) \<Longrightarrow>
   filteredData (Some (before @ item # after)) ys = filteredData (Some (before @ after)) ys"
  by (simp add: filteredData_def)

text \<open>
  C10. A record whose \<^verbatim>\<open>ano\<close> is missing, \<^verbatim>\<open>null\<close> or \<open>0\<close> adds nothing to the
  available years and is not among the filtered records; the available years are sorted
  and hold each non-zero year as often as the records do, and never \<open>0\<close>.
\<close>

theorem falsy_years_are_left_out:
  "(ano item = AnoAbsent \<or> ano item = AnoNull \<or> ano item = AnoNum 0 \<longrightarrow>
      availableYears (loadSheetsData_settle (Inr (before @ item # after)) s) =
        availableYears (loadSheetsData_settle (Inr (before @ after)) s) \<and>
      filteredData (Some (before @ item # after)) ys = filteredData (Some (before @ after)) ys \<and>
      (\<forall>fs. filteredData (Some (before @ item # after)) ys = Some fs \<longrightarrow> item \<notin> set fs)) \<and>
   sorted (availableYears (loadSheetsData_settle (Inr sheetsData) s)) \<and>
   (\<forall>n. count_list (availableYears (loadSheetsData_settle (Inr sheetsData) s)) n =
          (if n = 0 then 0 else count_list (map ano sheetsData) (AnoNum n)))"
proof -
  have drop: "availableYears (loadSheetsData_settle (Inr (before @ item # after)) s) =
        availableYears (loadSheetsData_settle (Inr (before @ after)) s) \<and>
      filteredData (Some (before @ item # after)) ys = filteredData (Some (before @ after)) ys \<and>
      (\<forall>fs. filteredData (Some (before @ item # after)) ys = Some fs \<longrightarrow> item \<notin> set fs)"
    if "ano item = AnoAbsent \<or> ano item = AnoNull \<or> ano item = AnoNum 0"
  proof -
    from that have falsy: "\<not> truthy_ano (ano item)" by auto
    have "item \<notin> set fs" if "filteredData (Some (before @ item # after)) ys = Some fs" for fs
      using that falsy by (auto simp add: filteredData_def split: if_splits)
    with falsy show ?thesis
      by (simp add: settle_years loadedYears_drop_falsy filteredData_drop_falsy)
  qed
  have rest: "sorted (availableYears (loadSheetsData_settle (Inr sheetsData) s)) \<and>
   (\<forall>n. count_list (availableYears (loadSheetsData_settle (Inr sheetsData) s)) n =
          (if n = 0 then 0 else count_list (map ano sheetsData) (AnoNum n)))"
    by (simp add: settle_years sorted_loadedYears count_loadedYears)
  from drop rest show ?thesis by blast
qed

theorem falsy_years_are_left_out_witness:
  "availableYears (loadSheetsData_settle (Inr (threeYears @ [yearItem AnoNull])) initialDashboard) =
     [2022, 2023, 2024] \<and>
   availableYears (loadSheetsData_settle (Inr (yearItem (AnoNum 0) # threeYears)) initialDashboard) =
     [2022, 2023, 2024] \<and>
   filteredData (Some (yearItem AnoAbsent # threeYears)) [2022, 2023, 2024] =
     filteredData (Some threeYears) [2022, 2023, 2024]"
proof -
  have val: "availableYears (loadSheetsData_settle (Inr threeYears) initialDashboard) = [2022, 2023, 2024]"
    by (simp add: loadSheetsData_settle_def Let_def loadedYears_def threeYears_def yearItem_def)
  have f1: "ano (yearItem AnoNull) = AnoAbsent \<or> ano (yearItem AnoNull) = AnoNull \<or>
      ano (yearItem AnoNull) = AnoNum 0"
    and f2: "ano (yearItem (AnoNum 0)) = AnoAbsent \<or> ano (yearItem (AnoNum 0)) = AnoNull \<or>
      ano (yearItem (AnoNum 0)) = AnoNum 0"
    and f3: "ano (yearItem AnoAbsent) = AnoAbsent \<or> ano (yearItem AnoAbsent) = AnoNull \<or>
      ano (yearItem AnoAbsent) = AnoNum 0"
    by (simp_all add: yearItem_def)
  from falsy_years_are_left_out [where item = "yearItem AnoNull" and before = threeYears
      and after = "[]" and s = initialDashboard, THEN conjunct1, THEN mp, OF f1] val
  have a: "availableYears (loadSheetsData_settle (Inr (threeYears @ [yearItem AnoNull])) initialDashboard) =
     [2022, 2023, 2024]"
    by simp
  from falsy_years_are_left_out [where item = "yearItem (AnoNum 0)" and before = "[]"
      and after = threeYears and s = initialDashboard, THEN conjunct1, THEN mp, OF f2] val
  have b: "availableYears (loadSheetsData_settle (Inr (yearItem (AnoNum 0) # threeYears)) initialDashboard) =
     [2022, 2023, 2024]"
    by simp
  from falsy_years_are_left_out [where item = "yearItem AnoAbsent" and before = "[]"
      and after = threeYears and ys = "[2022, 2023, 2024]", THEN conjunct1, THEN mp, OF f3]
  have c: "filteredData (Some (yearItem AnoAbsent # threeYears)) [2022, 2023, 2024] =
     filteredData (Some threeYears) [2022, 2023, 2024]"
    by simp
  from a b c show ?thesis by blast
qed

section \<open>Properties of fetching and rendering\<close>

text \<open>
  C9. When the backend answers with an object that has a \<^verbatim>\<open>message\<close> key,
  \<^verbatim>\<open>fetchSheetsData\<close> returns the empty array, not an error and not the object: the same
  value it returns for an empty array, so no caller can tell the two responses apart.
\<close>

theorem message_object_becomes_empty_array:
  assumes "''message'' \<in> set (map fst kvs)"
  shows "fetchSheetsData (Inr (JsonObject kvs)) = Inr (JsonArray []) \<and>
         fetchSheetsData (Inr (JsonObject kvs)) = fetchSheetsData (Inr (JsonArray []))"
  using assms by (simp add: fetchSheetsData_def)

theorem message_object_becomes_empty_array_witness:
  "fetchSheetsData (Inr (JsonObject [(''message'', JsonString ''Nenhum dado encontrado'')])) =
     Inr (JsonArray []) \<and>
   fetchSheetsData (Inr (JsonObject [(''message'', JsonString ''Nenhum dado encontrado'')])) =
     fetchSheetsData (Inr (JsonArray []))"
proof -
  have key: "''message'' \<in> set (map fst [(''message'', JsonString ''Nenhum dado encontrado'')])"
    by simp
  from message_object_becomes_empty_array [OF key] show ?thesis .
qed

lemma one_digit: "0 \<le> d \<Longrightarrow> d < 10 \<Longrightarrow>
    d = 0 \<or> d = 1 \<or> d = 2 \<or> d = 3 \<or> d = 4 \<or> d = 5 \<or> d = 6 \<or> d = 7 \<or> d = 8 \<or> d = (9 :: int)"
  by arith

lemma digitChar_small:
  assumes "0 \<le> d" and "d < 10"
  shows "digitValue (digitChar d) = d"
    and "digitChar d \<in> set ''0123456789''"
    and "0 < d \<Longrightarrow> digitChar d \<in> set ''123456789''"
proof -
  from one_digit [OF assms] show "digitValue (digitChar d) = d"
    by (elim disjE) (simp_all add: digitChar_def digitValue_def)
  from one_digit [OF assms] show "digitChar d \<in> set ''0123456789''"
    by (elim disjE) (simp_all add: digitChar_def)
  from one_digit [OF assms] show "0 < d \<Longrightarrow> digitChar d \<in> set ''123456789''"
    by (elim disjE) (simp_all add: digitChar_def)
qed

lemma digitChar_value: "digitValue (digitChar d) = d mod 10"
proof -
  have "digitChar d = digitChar (d mod 10)"
    by (simp add: digitChar_def)
  then show ?thesis
    by (simp add: digitChar_small(1))
qed

lemma digitChar_digit: "digitChar d \<in> set ''0123456789''"
proof -
  have "digitChar d = digitChar (d mod 10)"
    by (simp add: digitChar_def)
  moreover have "digitChar (d mod 10) \<in> set ''0123456789''"
    by (rule digitChar_small(2)) simp_all
  ultimately show ?thesis by simp
qed

lemma decimalDigits_digits: "set (decimalDigits n) \<subseteq> set ''0123456789''"
proof (induction n rule: decimalDigits.induct)
  case (1 n)
  show ?case
  proof (cases "n < 10")
    case True
    then show ?thesis
      using digitChar_digit [of n] by (simp add: decimalDigits.simps [of n])
  next
    case False
    with "1" have "set (decimalDigits (n div 10)) \<subseteq> set ''0123456789''"
      by simp
    with False show ?thesis
      using digitChar_digit [of "n mod 10"] by (simp add: decimalDigits.simps [of n])
  qed
qed

lemma decimalDigits_nonempty: "decimalDigits n \<noteq> []"
  by (simp add: decimalDigits.simps [of n])

lemma decimalDigits_no_stop: "CHR ''.'' \<notin> set (decimalDigits n)"
proof
  assume "CHR ''.'' \<in> set (decimalDigits n)"
  with decimalDigits_digits [of n] have "CHR ''.'' \<in> set ''0123456789''"
    by (rule subsetD)
  then show False by simp
qed

lemma digitsValue_snoc: "digitsValue (cs @ [c]) = 10 * digitsValue cs + digitValue c"
  by (simp add: digitsValue_def)

lemma digitsValue_decimalDigits: "0 \<le> n \<Longrightarrow> digitsValue (decimalDigits n) = n"
proof (induction n rule: decimalDigits.induct)
  case (1 n)
  show ?case
  proof (cases "n < 10")
    case True
    with "1.prems" show ?thesis
      by (simp add: decimalDigits.simps [of n] digitsValue_def digitChar_small(1))
  next
    case False
    with "1.prems" have "0 \<le> n div 10" by simp
    with "1.IH" False have "digitsValue (decimalDigits (n div 10)) = n div 10"
      by simp
    with False show ?thesis
      by (simp add: decimalDigits.simps [of n] digitsValue_snoc digitChar_value)
  qed
qed

lemma hd_decimalDigits:
  "0 < n \<Longrightarrow> hd (decimalDigits n) \<in> set ''123456789''"
proof (induction n rule: decimalDigits.induct)
  case (1 n)
  show ?case
  proof (cases "n < 10")
    case True
    with "1.prems" digitChar_small(3) [of n] show ?thesis
      by (simp add: decimalDigits.simps [of n])
  next
    case False
    then have "0 < n div 10" by simp
    with "1.IH" False have "hd (decimalDigits (n div 10)) \<in> set ''123456789''"
      by simp
    with False decimalDigits_nonempty [of "n div 10"] show ?thesis
      by (simp add: decimalDigits.simps [of n])
  qed
qed

lemma groupRev_chars: "set (groupRev ds) \<subseteq> insert CHR ''.'' (set ds)"
  by (induction ds rule: groupRev.induct) auto

lemma groupRev_nonempty: "ds \<noteq> [] \<Longrightarrow> groupRev ds \<noteq> []"
  by (induction ds rule: groupRev.induct) auto

lemma groupRev_last: "ds \<noteq> [] \<Longrightarrow> last (groupRev ds) = last ds"
  by (induction ds rule: groupRev.induct) (auto simp add: groupRev_nonempty)

lemma groupRev_filter:
  "CHR ''.'' \<notin> set ds \<Longrightarrow> filter (\<lambda>c. c \<noteq> CHR ''.'') (groupRev ds) = ds"
  by (induction ds rule: groupRev.induct) auto

lemma mod_four_shift: "4 \<le> j \<Longrightarrow> (j + 1) mod 4 = (j - 4 + 1) mod (4::nat)"
  by (metis Suc_eq_plus1 add.commute le_add_diff_inverse2 mod_add_self1 add_Suc_right)

lemma short_has_no_stop:
  assumes "CHR ''.'' \<notin> set ds" and "length ds \<le> 3" and "j < length ds"
  shows "(ds ! j = CHR ''.'') = ((j + 1) mod 4 = 0)"
proof -
  from assms(3) have "ds ! j \<in> set ds" by (rule nth_mem)
  with assms(1) have "ds ! j \<noteq> CHR ''.''" by metis
  moreover from assms(2,3) have "(j + 1) mod 4 = j + 1" by simp
  ultimately show ?thesis by simp
qed

lemma groupRev_stops:
  "CHR ''.'' \<notin> set ds \<Longrightarrow> j < length (groupRev ds) \<Longrightarrow>
   (groupRev ds ! j = CHR ''.'') = ((j + 1) mod 4 = 0)"
proof (induction ds arbitrary: j rule: groupRev.induct)
  case (1 a b c d rest)
  from "1.prems"(1) have notStop: "a \<noteq> CHR ''.''" "b \<noteq> CHR ''.''" "c \<noteq> CHR ''.''"
    and tail: "CHR ''.'' \<notin> set (d # rest)"
    by auto
  have "j = 0 \<or> j = Suc 0 \<or> j = Suc (Suc 0) \<or> j = Suc (Suc (Suc 0)) \<or>
        j = Suc (Suc (Suc (Suc (j - 4))))"
    by linarith
  then show ?case
  proof (elim disjE)
    assume "j = 0"
    with notStop show ?thesis by simp
  next
    assume "j = Suc 0"
    with notStop show ?thesis by simp
  next
    assume "j = Suc (Suc 0)"
    with notStop show ?thesis by simp
  next
    assume "j = Suc (Suc (Suc 0))"
    then show ?thesis by simp
  next
    assume k: "j = Suc (Suc (Suc (Suc (j - 4))))"
    then have ge: "4 \<le> j" by linarith
    with "1.prems"(2) have "j - 4 < length (groupRev (d # rest))" by simp
    with tail have "(groupRev (d # rest) ! (j - 4) = CHR ''.'') = ((j - 4 + 1) mod 4 = 0)"
      by (rule "1.IH")
    moreover have "(groupRev (a # b # c # d # rest)) ! j = groupRev (d # rest) ! (j - 4)"
      by (subst k) simp
    moreover from ge have "(j + 1) mod 4 = (j - 4 + 1) mod 4"
      by (rule mod_four_shift)
    ultimately show ?thesis
      by (simp only:)
  qed
qed (rule short_has_no_stop; simp)+

lemma hundredths_bounds:
  "of_int (hundredths x) \<le> x * 100 + 1 / 2 \<and> x * 100 + 1 / 2 < of_int (hundredths x) + 1"
  unfolding hundredths_def by linarith

lemma hundredths_nonneg: "0 \<le> x \<Longrightarrow> 0 \<le> hundredths x"
  by (simp add: hundredths_def)

lemma two_digits: "10 * (h mod 100 div 10 mod 10) + h mod 10 = h mod (100 :: int)"
proof -
  have "h mod 10 = h mod 100 mod 10"
    by (simp add: mod_mod_cancel)
  moreover have "h mod 100 div 10 mod 10 = h mod 100 div 10"
    by (rule mod_pos_pos_trivial) simp_all
  ultimately show ?thesis
    by (simp only: mult_div_mod_eq)
qed

lemma fractionPart_value:
  "length (fractionPart x) = 2 \<and> set (fractionPart x) \<subseteq> set ''0123456789'' \<and>
   digitsValue (fractionPart x) = hundredths x mod 100"
proof -
  have "digitsValue (fractionPart x) =
      10 * (hundredths x mod 100 div 10 mod 10) + hundredths x mod 10"
    by (simp add: fractionPart_def digitsValue_def digitChar_value)
  then have "digitsValue (fractionPart x) = hundredths x mod 100"
    by (simp only: two_digits)
  moreover have "set (fractionPart x) \<subseteq> set ''0123456789''"
    using digitChar_digit [of "hundredths x mod 100 div 10"] digitChar_digit [of "hundredths x mod 10"]
    by (simp add: fractionPart_def)
  ultimately show ?thesis
    by (simp add: fractionPart_def)
qed

lemma wholePart_chars: "set (wholePart x) \<subseteq> insert CHR ''.'' (set ''0123456789'')"
proof -
  have "set (groupRev (rev (decimalDigits (hundredths x div 100)))) \<subseteq>
      insert CHR ''.'' (set (rev (decimalDigits (hundredths x div 100))))"
    by (rule groupRev_chars)
  also have "\<dots> \<subseteq> insert CHR ''.'' (set ''0123456789'')"
    using decimalDigits_digits [of "hundredths x div 100"] by (simp only: set_rev insert_mono)
  finally show ?thesis
    by (simp only: wholePart_def set_rev)
qed

lemma wholePart_value:
  assumes "0 \<le> x"
  shows "digitsValue (filter (\<lambda>c. c \<noteq> CHR ''.'') (wholePart x)) = hundredths x div 100"
proof -
  have "CHR ''.'' \<notin> set (rev (decimalDigits (hundredths x div 100)))"
    by (simp only: set_rev decimalDigits_no_stop not_False_eq_True)
  then have "filter (\<lambda>c. c \<noteq> CHR ''.'') (groupRev (rev (decimalDigits (hundredths x div 100)))) =
      rev (decimalDigits (hundredths x div 100))"
    by (rule groupRev_filter)
  then have "filter (\<lambda>c. c \<noteq> CHR ''.'') (wholePart x) = decimalDigits (hundredths x div 100)"
    by (simp only: wholePart_def rev_filter [symmetric] rev_rev_ident)
  moreover from assms have "0 \<le> hundredths x div 100"
    by (simp add: hundredths_nonneg pos_imp_zdiv_nonneg_iff)
  ultimately show ?thesis
    by (simp only: digitsValue_decimalDigits)
qed

lemma wholePart_stops:
  assumes "i < length (wholePart x)"
  shows "(wholePart x ! i = CHR ''.'') = ((length (wholePart x) - i) mod 4 = 0)"
proof -
  define g where "g = groupRev (rev (decimalDigits (hundredths x div 100)))"
  have whole: "wholePart x = rev g"
    by (simp only: wholePart_def g_def)
  with assms have i: "i < length g" by simp
  then have j: "length g - Suc i < length g" by simp
  have "CHR ''.'' \<notin> set (rev (decimalDigits (hundredths x div 100)))"
    by (simp only: set_rev decimalDigits_no_stop not_False_eq_True)
  from groupRev_stops [OF this, of "length g - Suc i"] j
  have "(g ! (length g - Suc i) = CHR ''.'') = ((length g - Suc i + 1) mod 4 = 0)"
    by (simp only: g_def)
  moreover from i have "rev g ! i = g ! (length g - Suc i)"
    by (rule rev_nth)
  moreover from i have "length g - Suc i + 1 = length g - i"
    by simp
  ultimately show ?thesis
    by (simp only: whole length_rev)
qed

lemma wholePart_lead:
  assumes "0 \<le> x"
  shows "wholePart x = ''0'' \<or> hd (wholePart x) \<in> set ''123456789''"
proof (cases "hundredths x div 100 = 0")
  case True
  have "decimalDigits 0 = ''0''"
    by (simp add: decimalDigits.simps [of 0] digitChar_def)
  with True show ?thesis
    by (simp add: wholePart_def)
next
  case False
  define ds where "ds = decimalDigits (hundredths x div 100)"
  from assms have "0 \<le> hundredths x div 100"
    by (simp add: hundredths_nonneg pos_imp_zdiv_nonneg_iff)
  with False have "0 < hundredths x div 100" by simp
  then have lead: "hd ds \<in> set ''123456789''"
    unfolding ds_def by (rule hd_decimalDigits)
  have ne: "rev ds \<noteq> []"
    by (simp add: ds_def decimalDigits_nonempty)
  then have "hd (rev (groupRev (rev ds))) = last (groupRev (rev ds))"
    by (simp add: hd_rev groupRev_nonempty)
  also from ne have "\<dots> = last (rev ds)"
    by (rule groupRev_last)
  also have "\<dots> = hd ds"
    by (simp add: last_rev ds_def decimalDigits_nonempty)
  finally have "hd (wholePart x) = hd ds"
    by (simp only: wholePart_def ds_def)
  with lead show ?thesis by simp
qed

text \<open>
  C8. A numeric cell value is rendered as a minus sign exactly when it is negative, then
  the marker \<^verbatim>\<open>R$\<close> and a space, then the absolute value in the pt-BR form, which the
  value determines: the number \<open>h\<close> of hundredths nearest to it, a tie going up; the
  integer digits of \<open>h div 100\<close> without a leading zero, a full stop at every fourth
  place from the right and nowhere else; a comma; the two digits of \<open>h mod 100\<close>.
  \<open>-1234.5\<close> is rendered as \<^verbatim>\<open>-R$ 1.234,50\<close> and \<open>1.005\<close> as \<^verbatim>\<open>R$ 1,01\<close>.
\<close>

theorem currency_sign_and_magnitude:
  "renderValue (Some (JNum v)) =
     (if v < 0 then ''-'' else []) @ ''R$ '' @ wholePart \<bar>v\<bar> @ '','' @ fractionPart \<bar>v\<bar> \<and>
   (hd (renderValue (Some (JNum v))) = CHR ''-'') = (v < 0) \<and>
   of_int (hundredths \<bar>v\<bar>) \<le> \<bar>v\<bar> * 100 + 1 / 2 \<and>
   \<bar>v\<bar> * 100 + 1 / 2 < of_int (hundredths \<bar>v\<bar>) + 1 \<and>
   length (fractionPart \<bar>v\<bar>) = 2 \<and>
   set (fractionPart \<bar>v\<bar>) \<subseteq> set ''0123456789'' \<and>
   digitsValue (fractionPart \<bar>v\<bar>) = hundredths \<bar>v\<bar> mod 100 \<and>
   set (wholePart \<bar>v\<bar>) \<subseteq> insert CHR ''.'' (set ''0123456789'') \<and>
   digitsValue (filter (\<lambda>c. c \<noteq> CHR ''.'') (wholePart \<bar>v\<bar>)) = hundredths \<bar>v\<bar> div 100 \<and>
   (\<forall>i < length (wholePart \<bar>v\<bar>).
      (wholePart \<bar>v\<bar> ! i = CHR ''.'') = ((length (wholePart \<bar>v\<bar>) - i) mod 4 = 0)) \<and>
   (wholePart \<bar>v\<bar> = ''0'' \<or> hd (wholePart \<bar>v\<bar>) \<in> set ''123456789'') \<and>
   renderValue (Some (JNum (- 1234.5))) = ''-R$ 1.234,50'' \<and>
   renderValue (Some (JNum 1.005)) = ''R$ 1,01''"
proof -
  have nonneg: "0 \<le> \<bar>v\<bar>" by simp
  have rendered: "renderValue (Some (JNum v)) =
     (if v < 0 then ''-'' else []) @ ''R$ '' @ wholePart \<bar>v\<bar> @ '','' @ fractionPart \<bar>v\<bar>"
    by (simp add: toLocaleString_ptBR_def)
  have sign: "(hd (renderValue (Some (JNum v))) = CHR ''-'') = (v < 0)"
    by simp
  note bounds = hundredths_bounds [of "\<bar>v\<bar>"]
  note fraction = fractionPart_value [of "\<bar>v\<bar>"]
  have stops: "\<forall>i < length (wholePart \<bar>v\<bar>).
      (wholePart \<bar>v\<bar> ! i = CHR ''.'') = ((length (wholePart \<bar>v\<bar>) - i) mod 4 = 0)"
    by (intro allI impI) (rule wholePart_stops)
  have example: "renderValue (Some (JNum (- 1234.5))) = ''-R$ 1.234,50''"
    by code_simp
  have tie: "renderValue (Some (JNum 1.005)) = ''R$ 1,01''"
    by code_simp
  from rendered sign bounds [THEN conjunct1] bounds [THEN conjunct2]
    fraction [THEN conjunct1] fraction [THEN conjunct2, THEN conjunct1]
    fraction [THEN conjunct2, THEN conjunct2]
    wholePart_chars [of "\<bar>v\<bar>"] wholePart_value [OF nonneg] stops wholePart_lead [OF nonneg]
    example tie
  show ?thesis
    by (intro conjI)
qed

theorem currency_sign_and_magnitude_witness:
  "renderValue (Some (JNum (- 1234.5))) = ''-R$ '' @ wholePart 1234.5 @ '','' @ fractionPart 1234.5 \<and>
   wholePart 1234.5 = ''1.234'' \<and> wholePart 1234.5 ! 1 = CHR ''.'' \<and>
   digitsValue ''1234'' = hundredths 1234.5 div 100 \<and>
   fractionPart 1234.5 = ''50'' \<and> digitsValue ''50'' = hundredths 1234.5 mod 100"
proof -
  have abs: "\<bar>- 1234.5 :: rat\<bar> = 1234.5" by simp
  have whole: "wholePart 1234.5 = ''1.234''" by code_simp
  have frac: "fractionPart 1234.5 = ''50''" by code_simp
  note fact = currency_sign_and_magnitude [of "- 1234.5", unfolded abs]
  from fact [THEN conjunct1] have a: "renderValue (Some (JNum (- 1234.5))) =
      ''-R$ '' @ wholePart 1234.5 @ '','' @ fractionPart 1234.5"
    by simp
  have len: "1 < length (wholePart 1234.5)"
    unfolding whole by simp
  note stops = fact [THEN conjunct2, THEN conjunct2, THEN conjunct2, THEN conjunct2,
    THEN conjunct2, THEN conjunct2, THEN conjunct2, THEN conjunct2, THEN conjunct2,
    THEN conjunct1, rule_format]
  from stops [OF len]
  have "(wholePart 1234.5 ! 1 = CHR ''.'') = ((length (wholePart 1234.5) - 1) mod 4 = 0)" .
  then have b: "wholePart 1234.5 ! 1 = CHR ''.''"
    unfolding whole by simp
  from fact [THEN conjunct2, THEN conjunct2, THEN conjunct2, THEN conjunct2, THEN conjunct2, THEN conjunct2, THEN conjunct2, THEN conjunct2, THEN conjunct1]
  have c: "digitsValue ''1234'' = hundredths 1234.5 div 100"
    unfolding whole by simp
  from fact [THEN conjunct2, THEN conjunct2, THEN conjunct2, THEN conjunct2, THEN conjunct2, THEN conjunct2, THEN conjunct1]
  have d: "digitsValue ''50'' = hundredths 1234.5 mod 100"
    by (simp only: frac)
  from a whole b c frac d show ?thesis
    by (intro conjI)
qed

lemma readyDashboard_table:
  "tableRef readyDashboard =
     Some \<lparr>valueCells = [(0, 0), (0, 1), (0, 2), (1, 0), (1, 1), (1, 2)],
           colHeaders = [0, 1, 2], rowHeaders = [0, 1]\<rparr>"
  by (simp add: tableRef_def readyDashboard_def filteredData_def tableHeaders_def threeYears_def
      yearItem_def objectKeys_def)

lemma cellPressed_readyDashboard:
  "cellPressed (0, 0) readyDashboard =
     readyDashboard\<lparr>sel := emptySelection
       \<lparr>cellSelecionada := {(0, 0)},
        lastClickedCoords := Some \<lparr>crow = 0, ccol = 0, ctype = Cell\<rparr>,
        startCellCoords := Some (0, 0), isMouseDown := True\<rparr>\<rparr>"
  by (simp add: cellPressed_def readyDashboard_table handleCellMouseDown_def clearSelection_def)
     (simp add: readyDashboard_def emptySelection_def)

section \<open>Properties of the page\<close>

text \<open>
  C3, as stated, fails. On the page showing three years, press the cell in row 0 and
  column 0: it becomes the anchor. Unchecking the year 2023 leaves the anchor a cell, and
  so does switching to the tab \<^verbatim>\<open>2024\<close> and receiving its records: neither
  \<^verbatim>\<open>handleYearToggle\<close> nor \<^verbatim>\<open>loadSheetsData\<close> calls \<^verbatim>\<open>clearSelection\<close>.
\<close>

theorem anchor_survives_year_and_tab_change:
  "lastClickedCoords (sel (cellPressed (0, 0) readyDashboard)) =
     Some \<lparr>crow = 0, ccol = 0, ctype = Cell\<rparr> \<and>
   selectedYears (handleYearToggle 2023 (cellPressed (0, 0) readyDashboard)) = [2022, 2024] \<and>
   lastClickedCoords (sel (handleYearToggle 2023 (cellPressed (0, 0) readyDashboard))) =
     Some \<lparr>crow = 0, ccol = 0, ctype = Cell\<rparr> \<and>
   selectedTab (dataResponse ''2024'' (Inr threeYears)
     (handleTabChange ''2024'' (cellPressed (0, 0) readyDashboard))) = ''2024'' \<and>
   lastClickedCoords (sel (dataResponse ''2024'' (Inr threeYears)
     (handleTabChange ''2024'' (cellPressed (0, 0) readyDashboard)))) =
     Some \<lparr>crow = 0, ccol = 0, ctype = Cell\<rparr>"
  unfolding cellPressed_readyDashboard
  by (simp add: handleYearToggle_def toggleYear_def handleTabChange_def
      tabEffect_def loadSheetsData_call_def dataResponse_def loadSheetsData_settle_def Let_def
      readyDashboard_def threeYears_def)

lemma sel_loadSheetsData_settle: "sel (loadSheetsData_settle outcome s) = sel s"
  by (cases outcome) (simp_all add: loadSheetsData_settle_def Let_def)

lemma sel_handleTabChange: "sel (handleTabChange v s) = sel s"
  by (simp add: handleTabChange_def tabEffect_def loadSheetsData_call_def)

text \<open>
  C3, amended. The year handlers, the tab handler and the arrival of records leave the
  anchor as it was. What clears the selection is a press outside the rendered table,
  through the document's \<^verbatim>\<open>mousedown\<close> listener: after it all three sets are empty and
  there is no anchor, and this is still so after the year toggle or the tab switch that
  the press began.
\<close>

theorem selection_cleared_by_press_outside_only:
  "lastClickedCoords (sel (handleYearToggle year s)) = lastClickedCoords (sel s) \<and>
   lastClickedCoords (sel (handleToggleAllYears checkAll s)) = lastClickedCoords (sel s) \<and>
   lastClickedCoords (sel (handleTabChange targetValue s)) = lastClickedCoords (sel s) \<and>
   lastClickedCoords (sel (dataResponse tabName outcome s)) = lastClickedCoords (sel s) \<and>
   (tableRef s \<noteq> None \<longrightarrow>
      sel (pressedOutside s) = clearSelection (sel s) \<and>
      cellSelecionada (sel (handleYearToggle year (pressedOutside s))) = {} \<and>
      cabecalhoSelecionado (sel (handleYearToggle year (pressedOutside s))) = {} \<and>
      indicadorSelecionado (sel (handleYearToggle year (pressedOutside s))) = {} \<and>
      lastClickedCoords (sel (handleYearToggle year (pressedOutside s))) = None \<and>
      cellSelecionada (sel (dataResponse tabName outcome (handleTabChange targetValue (pressedOutside s)))) = {} \<and>
      cabecalhoSelecionado (sel (dataResponse tabName outcome (handleTabChange targetValue (pressedOutside s)))) = {} \<and>
      indicadorSelecionado (sel (dataResponse tabName outcome (handleTabChange targetValue (pressedOutside s)))) = {} \<and>
      lastClickedCoords (sel (dataResponse tabName outcome (handleTabChange targetValue (pressedOutside s)))) = None)"
proof -
  have keep: "lastClickedCoords (sel (handleYearToggle year s)) = lastClickedCoords (sel s)"
    "lastClickedCoords (sel (handleToggleAllYears checkAll s)) = lastClickedCoords (sel s)"
    "lastClickedCoords (sel (handleTabChange targetValue s)) = lastClickedCoords (sel s)"
    "lastClickedCoords (sel (dataResponse tabName outcome s)) = lastClickedCoords (sel s)"
    by (simp_all add: handleYearToggle_def handleToggleAllYears_def sel_handleTabChange
        dataResponse_def sel_loadSheetsData_settle)
  have outside: "sel (pressedOutside s) = clearSelection (sel s)" if "tableRef s \<noteq> None"
    using that by (auto simp add: pressedOutside_def handleClickOutside_def)
  have year: "sel (handleYearToggle year (pressedOutside s)) = sel (pressedOutside s)"
    by (simp add: handleYearToggle_def)
  have tab: "sel (dataResponse tabName outcome (handleTabChange targetValue (pressedOutside s))) =
      sel (pressedOutside s)"
    by (simp add: dataResponse_def sel_loadSheetsData_settle sel_handleTabChange)
  have cleared: "cellSelecionada (clearSelection x) = {} \<and> cabecalhoSelecionado (clearSelection x) = {} \<and>
      indicadorSelecionado (clearSelection x) = {} \<and> lastClickedCoords (clearSelection x) = None" for x
    by (simp add: clearSelection_def)
  from keep show ?thesis
    by (simp add: outside year tab cleared)
qed

theorem selection_cleared_by_press_outside_only_witness:
  "cellSelecionada (sel (cellPressed (0, 0) readyDashboard)) = {(0, 0)} \<and>
   cellSelecionada (sel (handleYearToggle 2023 (pressedOutside (cellPressed (0, 0) readyDashboard)))) = {} \<and>
   lastClickedCoords (sel (handleYearToggle 2023 (pressedOutside (cellPressed (0, 0) readyDashboard)))) = None"
proof -
  have t: "tableRef (cellPressed (0, 0) readyDashboard) \<noteq> None"
    unfolding cellPressed_readyDashboard
    by (simp add: tableRef_def Let_def readyDashboard_def filteredData_def threeYears_def
        yearItem_def)
  have c: "cellSelecionada (sel (cellPressed (0, 0) readyDashboard)) = {(0, 0)}"
    by (simp add: cellPressed_readyDashboard)
  note fact = selection_cleared_by_press_outside_only
      [where s = "cellPressed (0, 0) readyDashboard" and year = 2023,
       THEN conjunct2, THEN conjunct2, THEN conjunct2, THEN conjunct2, THEN mp, OF t]
  from fact have "cellSelecionada (sel (handleYearToggle 2023 (pressedOutside (cellPressed (0, 0) readyDashboard)))) = {}"
    and "lastClickedCoords (sel (handleYearToggle 2023 (pressedOutside (cellPressed (0, 0) readyDashboard)))) = None"
    by blast+
  with c show ?thesis by blast
qed







end
